theory Spec2Isabelle
  imports Complex_Main
begin

section \<open>JavaScript values used by the charting code\<close>

text \<open>
  The library reads its input from JSON, so a number is a finite value: it is modelled as a
  rational (comparison, minimum and maximum of finite doubles agree with the rationals they
  denote). \<open>Math.min()\<close> and \<open>Math.max()\<close> of no arguments are \<open>Infinity\<close> and
  \<open>-Infinity\<close>, so the results live in the numbers extended by the two infinities.
\<close>

datatype ext = NInf | Fin rat | PInf

text \<open>The relational operator \<open><\<close> of JavaScript on these numbers.\<close>

fun ext_less :: "ext \<Rightarrow> ext \<Rightarrow> bool" where
  "ext_less NInf NInf = False"
| "ext_less NInf _ = True"
| "ext_less (Fin a) NInf = False"
| "ext_less (Fin a) (Fin b) = (a < b)"
| "ext_less (Fin a) PInf = True"
| "ext_less PInf _ = False"

definition ext_le :: "ext \<Rightarrow> ext \<Rightarrow> bool" where
  "ext_le a b = (ext_less a b \<or> a = b)"

definition ext_min :: "ext \<Rightarrow> ext \<Rightarrow> ext" where
  "ext_min a b = (if ext_less b a then b else a)"

definition ext_max :: "ext \<Rightarrow> ext \<Rightarrow> ext" where
  "ext_max a b = (if ext_less a b then b else a)"

text \<open>\<open>Math.min(...xs)\<close> and \<open>Math.max(...xs)\<close> on a list of numbers.\<close>

fun Math_min :: "rat list \<Rightarrow> ext" where
  "Math_min [] = PInf"
| "Math_min (x # xs) = ext_min (Fin x) (Math_min xs)"

fun Math_max :: "rat list \<Rightarrow> ext" where
  "Math_max [] = NInf"
| "Math_max (x # xs) = ext_max (Fin x) (Math_max xs)"

text \<open>
  The axis identifiers of \<open>constants.js\<close> (\<open>constants.Y_AXIS\<close>, \<open>constants.Y2_AXIS\<close>);
  the file is not among the sources, the two values are the axis ids \<open>y\<close> and \<open>y2\<close> of the
  specification.
\<close>

definition Y_AXIS :: string where
  "Y_AXIS = ''y''"

definition Y2_AXIS :: string where
  "Y2_AXIS = ''y2''"

record range =
  rmin :: ext
  rmax :: ext

text \<open>
  A values-range object \<open>{[axis]: {min, max}}\<close>: an object with one computed key.
\<close>

type_synonym valuesRange = "string \<rightharpoonup> range"

section \<open>Line: \<open>calculateValuesRange\<close>\<close>

text \<open>
  A data point of a Line: \<open>x\<close> is left abstract, \<open>y\<close> is a number or \<open>null\<close> (\<open>None\<close>),
  a gap of a non-contiguous series.
\<close>

record 'x point =
  px :: 'x
  py :: "rat option"

text \<open>\<open>values.filter((i) => i.y !== null).map((i) => i.y)\<close>\<close>

definition yAxisValuesList :: "'x point list \<Rightarrow> rat list" where
  "yAxisValuesList values = map (\<lambda>i. the (py i)) (filter (\<lambda>i. py i \<noteq> None) values)"

text \<open>
  The parameter \<open>axis = constants.Y_AXIS\<close> has a default: \<open>None\<close> is the omitted argument.
\<close>

definition axisParam :: "string option \<Rightarrow> string" where
  "axisParam axisArg = (case axisArg of None \<Rightarrow> Y_AXIS | Some a \<Rightarrow> a)"

definition Line_calculateValuesRange :: "'x point list \<Rightarrow> string option \<Rightarrow> valuesRange" where
  "Line_calculateValuesRange values axisArg =
     (let axis = axisParam axisArg;
          ys = yAxisValuesList values
      in [axis \<mapsto> \<lparr> rmin = Math_min ys, rmax = Math_max ys \<rparr>])"

section \<open>Bar: \<open>calculateValuesRange\<close>\<close>

text \<open>A bar value: \<open>y\<close> is a number; there is no filter of \<open>null\<close> in this chart type.\<close>

record 'x bar_value =
  bv_x :: 'x
  bv_y :: rat

definition Bar_calculateValuesRange :: "'x bar_value list \<Rightarrow> string option \<Rightarrow> valuesRange" where
  "Bar_calculateValuesRange values axisArg =
     (let axis = axisParam axisArg;
          mn = Math_min (map bv_y values);
          mx = Math_max (map bv_y values)
      in [axis \<mapsto> \<lparr> rmin = (if ext_less mn (Fin 0) then mn else Fin 0),
                     rmax = (if ext_less (Fin 0) mx then mx else Fin 0) \<rparr>])"

section \<open>Errors\<close>

text \<open>
  The message constants of \<open>helpers/errors.js\<close> that the modelled code throws. A thrown
  \<open>Error\<close> is a value: a function that can throw returns the error (or nothing) together
  with the state it leaves behind, since a JavaScript exception does not undo the mutations
  made before it. \<open>TypeError\<close> is the runtime's error on reading a property of \<open>undefined\<close>;
  \<open>OtherError\<close> stands for the errors of collaborators that are not among the sources.
\<close>

datatype error =
    THROW_MSG_REGION_EMPTY
  | THROW_MSG_REGION_START_END_MISSING
  | THROW_MSG_REGION_INVALID_AXIS_PROVIDED
  | THROW_MSG_REGION_INVALID_VALUE_TYPE_PROVIDED
  | THROW_MSG_REGION_START_MORE_END
  | THROW_MSG_INVALID_OBJECT_PROVIDED
  | THROW_MSG_INVALID_LOAD_CONTENT_AT_INDEX
  | THROW_MSG_NO_AXES_DATA_LOADED
  | TypeError
  | OtherError string

section \<open>Region bounds and the \<open>utils\<close> predicates on them\<close>

text \<open>
  A bound of a region (\<open>region.start\<close>, \<open>region.end\<close>) is absent (\<open>undefined\<close>), \<open>null\<close>,
  a number, or a value that is not a number: \<open>NonNumber\<close> stands for a truthy, non-empty
  value that no conversion turns into a number, such as the string \<open>abc\<close>. Empty strings,
  booleans and numeric strings are outside this input type.
\<close>

datatype jsval = Undefined | Null | Num rat | NonNumber

text \<open>
  Modelled from the spec: \<open>helpers/utils.js\<close> (\<open>isEmpty\<close>, \<open>notEmpty\<close>, \<open>isNumber\<close>) is
  not among the sources. A value is empty when it is \<open>undefined\<close>, \<open>null\<close>, or an empty
  string, list or object; a number is never empty.
\<close>

fun isEmpty :: "jsval \<Rightarrow> bool" where
  "isEmpty Undefined = True"
| "isEmpty Null = True"
| "isEmpty (Num n) = False"
| "isEmpty NonNumber = False"

fun isNumber :: "jsval \<Rightarrow> bool" where
  "isNumber (Num n) = True"
| "isNumber _ = False"

text \<open>Truthiness, as \<open>&&\<close> and \<open>? :\<close> test it.\<close>

fun truthy :: "jsval \<Rightarrow> bool" where
  "truthy Undefined = False"
| "truthy Null = False"
| "truthy (Num n) = (n \<noteq> 0)"
| "truthy NonNumber = True"

text \<open>\<open>Number(v)\<close>; \<open>None\<close> is \<open>NaN\<close>. \<open>Number(null)\<close> is \<open>0\<close>.\<close>

fun Number :: "jsval \<Rightarrow> rat option" where
  "Number Undefined = None"
| "Number Null = Some 0"
| "Number (Num n) = Some n"
| "Number NonNumber = None"

text \<open>\<open>a > b\<close> on numbers: false when either side is \<open>NaN\<close>.\<close>

fun js_gt :: "rat option \<Rightarrow> rat option \<Rightarrow> bool" where
  "js_gt (Some a) (Some b) = (b < a)"
| "js_gt _ _ = False"

text \<open>\<open>isEmpty\<close> and \<open>notEmpty\<close> on an optional string and on an optional list.\<close>

definition isEmptyStr :: "string option \<Rightarrow> bool" where
  "isEmptyStr s = (case s of None \<Rightarrow> True | Some t \<Rightarrow> t = [])"

definition notEmptyList :: "'a list option \<Rightarrow> bool" where
  "notEmptyList xs = (case xs of None \<Rightarrow> False | Some ys \<Rightarrow> ys \<noteq> [])"

section \<open>\<open>helpers/region.js\<close>\<close>

text \<open>
  A region \<open>{axis, start, end, color}\<close> is an object: each of its keys is absent from the
  object or is an own key of it, and an own key holds a value, which can be \<open>undefined\<close>.
  The objects \<open>{}\<close> and \<open>{start: undefined, end: undefined}\<close> differ: the first has no own
  key. Objects with other keys than these four are outside this input type. The value of
  \<open>axis\<close> and of \<open>color\<close> is a string or \<open>undefined\<close> (\<open>None\<close>).
\<close>

datatype 'a field = Absent | Own 'a

record region =
  r_axis :: "string option field"
  r_start :: "jsval field"
  r_end :: "jsval field"
  r_color :: "string option field"

text \<open>Reading a property, \<open>region.start\<close>: \<open>undefined\<close> when the key is absent.\<close>

definition region_axis :: "region \<Rightarrow> string option" where
  "region_axis r = (case r_axis r of Absent \<Rightarrow> None | Own a \<Rightarrow> a)"

definition region_start :: "region \<Rightarrow> jsval" where
  "region_start r = (case r_start r of Absent \<Rightarrow> Undefined | Own v \<Rightarrow> v)"

definition region_end :: "region \<Rightarrow> jsval" where
  "region_end r = (case r_end r of Absent \<Rightarrow> Undefined | Own v \<Rightarrow> v)"

definition region_color :: "region \<Rightarrow> string option" where
  "region_color r = (case r_color r of Absent \<Rightarrow> None | Own c \<Rightarrow> c)"

text \<open>
  Modelled from the spec: \<open>utils.isEmpty\<close> is not among the sources. On an object it is
  true exactly when the object has no own key, whatever the keys hold.
\<close>

definition isEmptyRegion :: "region \<Rightarrow> bool" where
  "isEmptyRegion r =
     (r_axis r = Absent \<and> r_start r = Absent \<and> r_end r = Absent \<and> r_color r = Absent)"

text \<open>\<open>validateRegion\<close>: \<open>None\<close> when it returns, the error it throws otherwise.\<close>

definition validateRegion :: "region \<Rightarrow> string \<Rightarrow> error option" where
  "validateRegion region targetAxis =
     (if isEmptyRegion region then Some THROW_MSG_REGION_EMPTY
      else if isEmpty (region_start region) \<and> isEmpty (region_end region)
        then Some THROW_MSG_REGION_START_END_MISSING
      else if \<not> isEmptyStr (region_axis region) \<and>
              ((region_axis region \<noteq> Some Y_AXIS \<and> region_axis region \<noteq> Some Y2_AXIS) \<or>
               region_axis region \<noteq> Some targetAxis)
        then Some THROW_MSG_REGION_INVALID_AXIS_PROVIDED
      else if isEmptyStr (region_axis region) \<and> Y_AXIS \<noteq> targetAxis
        then Some THROW_MSG_REGION_INVALID_AXIS_PROVIDED
      else if (truthy (region_start region) \<and> \<not> isNumber (region_start region)) \<or>
              (truthy (region_end region) \<and> \<not> isNumber (region_end region))
        then Some THROW_MSG_REGION_INVALID_VALUE_TYPE_PROVIDED
      else if js_gt (Number (region_start region)) (Number (region_end region))
        then Some THROW_MSG_REGION_START_MORE_END
      else None)"

text \<open>
  A region's axis is valid for the target axis when it passes the two axis checks of
  \<open>validateRegion\<close>: no axis is given and the target is \<open>y\<close>, or the axis given is the
  target and is \<open>y\<close> or \<open>y2\<close>.
\<close>

definition validRegionAxis :: "region \<Rightarrow> string \<Rightarrow> bool" where
  "validRegionAxis region targetAxis =
     (if isEmptyStr (region_axis region) then targetAxis = Y_AXIS
      else region_axis region = Some targetAxis \<and> (targetAxis = Y_AXIS \<or> targetAxis = Y2_AXIS))"

text \<open>
  The rendered regions. A \<open>rect\<close> carries the datum d3 bound to it, whether it has the class
  \<open>styles.region\<close>, and its attributes \<open>aria-hidden\<close>, \<open>aria-describedby\<close> and \<open>style\<close>
  (\<open>None\<close>: the attribute is not set). The position and size attributes are computed from
  the scale by helpers of \<open>helpers/axis.js\<close>, which is not among the sources; they are left
  out. The region group is the \<open>g\<close> element made by \<open>createRegionContainer\<close>: \<open>rg_gs\<close> counts
  the \<open>g\<close> elements below it (the pair groups of \<open>renderRegion\<close>), \<open>rg_rects\<close> lists the
  \<open>rect\<close> elements below it in document order.
\<close>

record rect =
  datum :: region
  class_region :: bool
  aria_hidden :: "bool option"
  aria_describedby :: "string option"
  style :: "string option"

record regionGroup =
  rg_gs :: nat
  rg_rects :: "rect list"


text \<open>The first error of a callback run over a list by \<open>selection.each\<close>.\<close>

fun firstError :: "('a \<Rightarrow> error option) \<Rightarrow> 'a list \<Rightarrow> error option" where
  "firstError f [] = None"
| "firstError f (x # xs) = (case f x of Some e \<Rightarrow> Some e | None \<Rightarrow> firstError f xs)"

text \<open>The element \<open>append("rect")\<close> creates for a datum, before any attribute is set.\<close>

definition bareRect :: "region \<Rightarrow> rect" where
  "bareRect d = \<lparr> datum = d, class_region = False, aria_hidden = None,
                  aria_describedby = None, style = None \<rparr>"

text \<open>The same element after the chain \<open>classed\<close>, \<open>attr\<close>, ... of \<open>createRegion\<close>.\<close>

definition regionRect :: "string \<Rightarrow> region \<Rightarrow> rect" where
  "regionRect uniqueKey d =
     \<lparr> datum = d, class_region = True, aria_hidden = Some False,
       aria_describedby = Some uniqueKey,
       style = Some (case region_color d of
                       None \<Rightarrow> []
                     | Some c \<Rightarrow> (if c = [] then [] else ''fill: '' @ c @ '';'')) \<rparr>"

text \<open>
  \<open>createRegion\<close>. \<open>regionGroupSVG.selectAll("g").data(regionList)\<close> joins the list by
  index with the \<open>g\<close> elements below the group, so the entering data are those past the
  number of such elements. \<open>enter().append("rect")\<close> appends one \<open>rect\<close> per entering datum;
  only then \<open>each\<close> runs \<open>validateRegion\<close> on them in order, and the first error leaves the
  appended elements as they are. The elements of the exit selection are removed when
  their transition ends, after the call has returned.
\<close>

definition createRegion ::
    "regionGroup \<Rightarrow> region list \<Rightarrow> string \<Rightarrow> string option \<Rightarrow> error option \<times> regionGroup" where
  "createRegion regionGroupSVG regionList uniqueKey targetAxisArg =
     (let targetAxis = axisParam targetAxisArg;
          entering = drop (rg_gs regionGroupSVG) regionList;
          appended = regionGroupSVG
            \<lparr> rg_rects := rg_rects regionGroupSVG @ map bareRect entering \<rparr>
      in case firstError (\<lambda>d. validateRegion d targetAxis) entering of
           Some e \<Rightarrow> (Some e, appended)
         | None \<Rightarrow>
             (None, regionGroupSVG
                \<lparr> rg_rects := rg_rects regionGroupSVG @ map (regionRect uniqueKey) entering \<rparr>))"







section \<open>\<open>helpers/datetimeBuckets.js\<close>\<close>

text \<open>
  The \<open>ticks\<close> object of the X axis: each list is absent (\<open>None\<close>) or given. \<open>notEmpty\<close> of a
  list is false for an absent and for an empty list; as a condition (\<open>a ? b : c\<close>) a given
  list is true even when it is empty.
\<close>

record 'v ticks =
  t_values :: "'v list option"
  lowerStepTickValues :: "'v list option"
  midpointTickValues :: "'v list option"
  upperStepTickValues :: "'v list option"

text \<open>The part \<open>config.axis.x\<close> of the configuration that this file reads.\<close>

record 'v x_axis =
  x_ticks :: "'v ticks option"
  x_orientation :: string

datatype bucket_type = LOWER_STEP_TICK_VALUES | MIDPOINT_TICK_VALUES | UPPER_STEP_TICK_VALUES

text \<open>The object \<open>{values, upperStepTickValues}\<close> built by \<open>prepareHAxis\<close>.\<close>

record 'v datetimeBuckets =
  db_values :: "'v list option"
  db_upperStepTickValues :: "'v list option"

text \<open>The axis object: \<open>axis.x\<close> and \<open>axis.y\<close> hold d3 axes, which stay abstract.\<close>

record 'ax axis =
  axis_x :: 'ax
  axis_y :: 'ax

definition isEmptyTicks :: "'v ticks option \<Rightarrow> bool" where
  "isEmptyTicks ticks =
     (case ticks of
        None \<Rightarrow> True
      | Some t \<Rightarrow> t_values t = None \<and> lowerStepTickValues t = None \<and>
                  midpointTickValues t = None \<and> upperStepTickValues t = None)"

definition constructDatetimeBucketValues :: "'v datetimeBuckets \<Rightarrow> 'v list" where
  "constructDatetimeBucketValues dateTimeBuckets =
     (let newStepValues = [];
          newStepValues =
            (if notEmptyList (db_values dateTimeBuckets)
             then newStepValues @ the (db_values dateTimeBuckets) else newStepValues);
          newStepValues =
            (if notEmptyList (db_upperStepTickValues dateTimeBuckets)
             then newStepValues @ the (db_upperStepTickValues dateTimeBuckets)
             else newStepValues)
      in newStepValues)"

definition hasDatetimeBuckets :: "'v ticks option \<Rightarrow> bool" where
  "hasDatetimeBuckets ticks =
     (if isEmptyTicks ticks then False
      else notEmptyList (midpointTickValues (the ticks)) \<or>
           notEmptyList (upperStepTickValues (the ticks)) \<or>
           notEmptyList (lowerStepTickValues (the ticks)))"

text \<open>
  \<open>prepareHAxis\<close>. The handler \<open>prepareXAxisHandler\<close> is a callback (the callers pass
  \<open>prepareHorizontalAxis\<close> of \<open>helpers/axis.js\<close>); it receives the scale, the tick values, the
  configuration and the orientation. The orientation argument defaults to
  \<open>config.axis.x.orientation\<close>. The \<open>ticks\<close> object is read only when \<open>hasDatetimeBuckets\<close>
  holds, which it does for no absent \<open>ticks\<close>.
\<close>

definition prepareHAxis ::
    "'s \<Rightarrow> 'ax axis \<Rightarrow> 'v x_axis \<Rightarrow> ('s \<Rightarrow> 'v list \<Rightarrow> 'v x_axis \<Rightarrow> string \<Rightarrow> 'ax) \<Rightarrow>
     string option \<Rightarrow> 'ax axis" where
  "prepareHAxis scale axis config prepareXAxisHandler orientationArg =
     (let orientation = (case orientationArg of None \<Rightarrow> x_orientation config | Some ori \<Rightarrow> ori)
      in if hasDatetimeBuckets (x_ticks config)
         then (let ticks = the (x_ticks config);
                   values = (if lowerStepTickValues ticks \<noteq> None
                             then lowerStepTickValues ticks else t_values ticks);
                   datetimeBuckets = \<lparr> db_values = values,
                                       db_upperStepTickValues = upperStepTickValues ticks \<rparr>
               in axis \<lparr> axis_x := prepareXAxisHandler scale
                                      (constructDatetimeBucketValues datetimeBuckets)
                                      config orientation \<rparr>)
         else axis)"

text \<open>
  \<open>createDatetimeBuckets\<close> calls \<open>createVGridForDatetimeBuckets\<close> once per tier to draw; the
  model keeps the tier and the tick values of each call, in the order of the calls. The
  function reads the properties of \<open>config.axis.x.ticks\<close>, a \<open>TypeError\<close> when there is no
  such object; \<open>createVGrid\<close> calls it only when \<open>hasDatetimeBuckets\<close> holds.
\<close>

definition createDatetimeBuckets :: "'v x_axis \<Rightarrow> error + (bucket_type \<times> 'v list) list" where
  "createDatetimeBuckets config =
     (case x_ticks config of
        None \<Rightarrow> Inl TypeError
      | Some ticks \<Rightarrow>
          Inr ((if notEmptyList (t_values ticks) \<and> \<not> notEmptyList (lowerStepTickValues ticks)
                then [(LOWER_STEP_TICK_VALUES, the (t_values ticks))]
                else if notEmptyList (lowerStepTickValues ticks)
                then [(LOWER_STEP_TICK_VALUES, the (lowerStepTickValues ticks))]
                else [])
               @ (if notEmptyList (midpointTickValues ticks)
                  then [(MIDPOINT_TICK_VALUES, the (midpointTickValues ticks))] else [])
               @ (if notEmptyList (upperStepTickValues ticks)
                  then [(UPPER_STEP_TICK_VALUES, the (upperStepTickValues ticks))] else [])))"

text \<open>The list an optional list stands for when it is concatenated: nothing when absent.\<close>

definition listOf :: "'a list option \<Rightarrow> 'a list" where
  "listOf xs = (case xs of None \<Rightarrow> [] | Some ys \<Rightarrow> ys)"

section \<open>Gantt helpers: the track list and \<open>prepareLoadAtIndex\<close>\<close>

text \<open>
  The lengths these helpers compute with (track heights, paddings, widths) are JavaScript
  numbers. Their type \<open>'n\<close> is left open: it has the operations the code applies, each
  applied as and in the order the code applies it, and no law about them is assumed, so
  the definitions read the same for doubles, whose addition rounds. The literal \<open>2\<close> is
  written \<open>1 + 1\<close>.

  A track content \<open>{key, trackLabel: {display}, dimension, loadAtIndex}\<close>: \<open>tc_dimension\<close>
  is the track height of the \<open>dimension\<close> object when there is one, \<open>tc_loadAtIndex\<close> the
  load index when it is given (\<open>utils.notEmpty\<close> of a number is true).
\<close>

record 'n trackContent =
  tc_key :: string
  tc_trackLabel_display :: string
  tc_dimension :: "'n option"
  tc_loadAtIndex :: "int option"

record 'n track =
  trackHeight :: 'n
  trackLabel :: string

text \<open>
  The track list \<open>config.axis.y.trackList\<close> is an object used as a dictionary: the pairs
  of key and track in the order in which the keys were created. Assigning to a key that
  is present replaces its value in place, assigning to a new key creates it last.
\<close>

type_synonym 'n trackList = "(string \<times> 'n track) list"

definition objSet :: "('k \<times> 'v) list \<Rightarrow> 'k \<Rightarrow> 'v \<Rightarrow> ('k \<times> 'v) list" where
  "objSet obj k v =
     (if k \<in> fst ` set obj then map (\<lambda>(k', v'). if k' = k then (k', v) else (k', v')) obj
      else obj @ [(k, v)])"

text \<open>
  \<open>Object.keys\<close> does not enumerate in the order of creation alone: the keys that are
  array indices (the decimal numeral, without a leading zero, of an integer from \<open>0\<close> to
  \<open>2\<^sup>3\<^sup>2 - 2\<close>) come first, in ascending numeric order, and the other keys follow in the
  order of their creation.
\<close>

definition digitValue :: "char \<Rightarrow> nat option" where
  "digitValue c =
     map_of [(CHR ''0'', 0), (CHR ''1'', 1), (CHR ''2'', 2), (CHR ''3'', 3), (CHR ''4'', 4),
             (CHR ''5'', 5), (CHR ''6'', 6), (CHR ''7'', 7), (CHR ''8'', 8), (CHR ''9'', 9)] c"

definition decimalValue :: "string \<Rightarrow> nat option" where
  "decimalValue s =
     foldl (\<lambda>acc c. case acc of
                       None \<Rightarrow> None
                     | Some n \<Rightarrow> (case digitValue c of
                                    None \<Rightarrow> None
                                  | Some d \<Rightarrow> Some (10 * n + d)))
           (Some 0) s"

definition arrayIndex :: "string \<Rightarrow> nat option" where
  "arrayIndex s =
     (if s = [] \<or> (1 < length s \<and> hd s = CHR ''0'') then None
      else case decimalValue s of
             None \<Rightarrow> None
           | Some n \<Rightarrow> if n < 4294967295 then Some n else None)"

definition ownPropertyKeys :: "(string \<times> 'v) list \<Rightarrow> (string \<times> 'v) list" where
  "ownPropertyKeys obj =
     sort_key (\<lambda>p. case arrayIndex (fst p) of Some n \<Rightarrow> n | None \<Rightarrow> 0)
       (filter (\<lambda>p. arrayIndex (fst p) \<noteq> None) obj)
     @ filter (\<lambda>p. arrayIndex (fst p) = None) obj"

text \<open>
  \<open>updateTrackList\<close>: the pairs are listed in the order of \<open>Object.keys\<close>;
  \<open>splice(trackIndex, 0, item)\<close> inserts at the index, at the end when the index is past
  the length; the new object gets its keys in the order of the list. \<open>defaultHeight\<close> is
  \<open>constants.DEFAULT_GANTT_TRACK_HEIGHT\<close>, a constant of a file that is not among the
  sources.
\<close>

definition updateTrackList ::
    "'n \<Rightarrow> 'n trackContent \<Rightarrow> nat \<Rightarrow> 'n trackList \<Rightarrow> 'n trackList" where
  "updateTrackList defaultHeight content trackIndex trackListObject =
     (let trackList = ownPropertyKeys trackListObject;
          item = (tc_key content,
                  \<lparr> trackHeight = (case tc_dimension content of
                                     Some h \<Rightarrow> h | None \<Rightarrow> defaultHeight),
                    trackLabel = tc_trackLabel_display content \<rparr>);
          trackList = take trackIndex trackList @ [item] @ drop trackIndex trackList
      in foldl (\<lambda>trackListObj track. objSet trackListObj (fst track) (snd track)) [] trackList)"

text \<open>The part of the Gantt configuration that \<open>scaleGraph\<close> and its helpers read.\<close>

record ('d, 'n) ganttConfig =
  g_trackList :: "'n trackList"
  g_xDomain :: 'd
  g_rangeRounding :: bool
  g_canvasWidth :: 'n
  g_axisSizes_y :: 'n
  g_axisLabelWidths_y :: 'n
  g_padding_top :: 'n
  g_padding_bottom :: 'n

text \<open>
  The scale object: the d3 scales are kept as the data they are built from, the time scale
  of \<open>x\<close> by its domain, range, clamping and rounding (\<open>nice\<close>), the ordinal scale of \<open>y\<close> by
  its domain and range.
\<close>

record ('d, 'n) scale =
  sx_domain :: "'d option"
  sx_range :: "'n \<times> 'n"
  sx_clamp :: bool
  sx_nice :: bool
  sy_domain :: "string list"
  sy_range :: "'n list"

definition getXAxisYPosition :: "('d, 'n :: {plus, times, one}) ganttConfig \<Rightarrow> 'n" where
  "getXAxisYPosition config = (g_padding_top config + g_padding_bottom config) * (1 + 1)"

definition getXAxisWidth :: "('d, 'n :: {plus, minus, times, one}) ganttConfig \<Rightarrow> 'n" where
  "getXAxisWidth config =
     g_canvasWidth config - g_axisSizes_y config - g_axisLabelWidths_y config
       - getXAxisYPosition config"

definition getYAxisDomain :: "'n trackList \<Rightarrow> string list" where
  "getYAxisDomain trackList =
     (if trackList = [] then [] else map (\<lambda>k. trackLabel (snd k)) (ownPropertyKeys trackList))"

text \<open>
  \<open>getYAxisRange\<close>: each height plus the sum of the heights before it, the sum taken
  from the left starting at \<open>0\<close>, as \<open>reduce\<close> does.
\<close>

definition getYAxisRange :: "('n :: {plus, zero}) trackList \<Rightarrow> 'n list" where
  "getYAxisRange trackList =
     (let arr = map (\<lambda>k. trackHeight (snd k)) (ownPropertyKeys trackList)
      in map (\<lambda>index. if index > 0 then arr ! index + foldl (+) 0 (take index arr) else arr ! index)
             [0 ..< length arr])"

definition scaleGraph ::
    "('d, 'n) scale \<Rightarrow> ('d, 'n :: {plus, minus, times, zero, one}) ganttConfig \<Rightarrow> ('d, 'n) scale" where
  "scaleGraph scale config =
     scale \<lparr> sx_domain := Some (g_xDomain config),
             sx_range := (0, getXAxisWidth config),
             sx_clamp := True,
             sx_nice := g_rangeRounding config,
             sy_domain := getYAxisDomain (g_trackList config),
             sy_range := 0 # getYAxisRange (g_trackList config) \<rparr>"

text \<open>
  \<open>prepareLoadAtIndex\<close>. \<open>validateContent\<close> is imported from \<open>Track\<close>, which is not among the
  sources: it is a parameter that returns the error it throws, if any. The content argument
  is \<open>None\<close> when it is empty (\<open>utils.notEmpty(content)\<close> is false); \<open>updateTrackList\<close> then
  reads a property of an undefined value. The result is the thrown error or the returned
  index, with the configuration and the scale as the call leaves them.
\<close>

definition prepareLoadAtIndex ::
    "('n trackContent option \<Rightarrow> error option) \<Rightarrow> 'n \<Rightarrow> ('d, 'n) scale \<Rightarrow>
     ('d, 'n :: {plus, minus, times, zero, one}) ganttConfig \<Rightarrow>
     'n trackContent option \<Rightarrow> nat \<Rightarrow> (error + int) \<times> ('d, 'n) ganttConfig \<times> ('d, 'n) scale" where
  "prepareLoadAtIndex validateContent defaultHeight scale config content len =
     (case validateContent content of
        Some e \<Rightarrow> (Inl e, config, scale)
      | None \<Rightarrow>
          (case content of
             None \<Rightarrow> (Inl TypeError, config, scale)
           | Some c \<Rightarrow>
               (case tc_loadAtIndex c of
                  Some loadAtIndex \<Rightarrow>
                    if loadAtIndex < 0
                    then (Inl THROW_MSG_INVALID_LOAD_CONTENT_AT_INDEX, config, scale)
                    else (let index = loadAtIndex;
                              config = config \<lparr> g_trackList :=
                                updateTrackList defaultHeight c (nat index) (g_trackList config) \<rparr>
                          in (Inr index, config, scaleGraph scale config))
                | None \<Rightarrow>
                    (Inr (int len),
                     config \<lparr> g_trackList :=
                       updateTrackList defaultHeight c len (g_trackList config) \<rparr>,
                     scale))))"

section \<open>\<open>controls/Graph/Graph.js\<close>\<close>

text \<open>
  The axis types of the specification. The part of the graph configuration that the
  controller itself reads: \<open>config.dateline\<close>, \<open>config.axis[id].type\<close>,
  \<open>config.axis[id].dataRange.isRangeModified\<close>, \<open>config.shownTargets\<close> and
  \<open>config.canvasWidth\<close> (\<open>None\<close> is \<open>NaN\<close>, the result of \<open>parseInt\<close> on a width that is no
  number). The contents' \<open>yAxis\<close> is \<open>y\<close> or \<open>y2\<close>, a key of \<open>config.axis\<close>. \<open>c_other\<close> is
  the rest of the configuration (the domains and the padding of the axes, the sizes),
  which only the collaborators read and write.
\<close>

datatype axis_type = TIME_SERIES | NUMERIC | ORDINAL

record axisConfig =
  a_type :: axis_type
  a_dataRange_isRangeModified :: bool

record ('dl, 'o) config =
  c_axis :: "string \<Rightarrow> axisConfig"
  c_dateline :: "'dl list"
  c_shownTargets :: "string list"
  c_canvasWidth :: "int option"
  c_other :: 'o

text \<open>
  The calls the controller makes to its collaborators, in the order it makes them: a log
  kept beside the state, so that the order of the effects can be stated.
\<close>

datatype 'c call =
    ValidateContent 'c
  | SetAxisPadding 'c
  | GetAxesDataRange 'c
  | UpdateAxesDomain 'c
  | ContentLoad 'c
  | RedrawDatelineContent
  | SetCanvasWidth
  | ScaleGraph
  | TranslateGraph
  | ContentResize 'c
  | ContentUnload 'c

text \<open>
  The Graph. A content is an object, known by its reference \<open>'c\<close>: two references are equal
  exactly when they are the same object, as \<open>indexOf\<close> compares them. \<open>contentTargets\<close> holds
  the \<open>config\<close> objects of the contents. \<open>dom\<close> is everything the collaborators draw on or
  keep: the scale, the axes, the canvas and the legend, and the state of the content
  objects.
\<close>

record ('c, 't, 'dl, 'o, 'dom) graph =
  this_config :: "('dl, 'o) config"
  this_content :: "'c list"
  this_contentTargets :: "'t list"
  this_dom :: 'dom
  this_calls :: "'c call list"

text \<open>
  The collaborators that are not among the sources (\<open>GraphConfig\<close>, \<open>helpers/axis\<close>,
  \<open>Graph/helpers/helpers\<close>) and the methods of the content, which differ by chart type,
  are parameters. \<open>validateContent\<close> and \<open>content.load\<close> can throw: they return the error,
  if any (\<open>load\<close> together with the state it leaves). The others are taken to return.
  A method of a content receives the graph; it may read the content list and change the
  configuration and the DOM.
\<close>

record ('c, 't, 'dl, 'o, 'dom) env =
  e_validateContent :: "'c list \<Rightarrow> 'c \<Rightarrow> error option"
  e_contentConfig :: "'c \<Rightarrow> 'dom \<Rightarrow> 't"
  e_yAxis :: "'c \<Rightarrow> 'dom \<Rightarrow> string option"
  e_setAxisPadding :: "('dl, 'o) config \<Rightarrow> 'c \<Rightarrow> ('dl, 'o) config"
  e_getAxesDataRange :: "'c \<Rightarrow> string option \<Rightarrow> ('dl, 'o) config \<Rightarrow> 'c list \<Rightarrow> ('dl, 'o) config"
  e_updateAxesDomain :: "('dl, 'o) config \<Rightarrow> 'c \<Rightarrow> ('dl, 'o) config"
  e_load :: "'c \<Rightarrow> 'c list \<Rightarrow> ('dl, 'o) config \<times> 'dom \<Rightarrow> error option \<times> ('dl, 'o) config \<times> 'dom"
  e_unload :: "'c \<Rightarrow> 'c list \<Rightarrow> ('dl, 'o) config \<times> 'dom \<Rightarrow> ('dl, 'o) config \<times> 'dom"
  e_resize :: "'c \<Rightarrow> 'c list \<Rightarrow> ('dl, 'o) config \<times> 'dom \<Rightarrow> ('dl, 'o) config \<times> 'dom"
  e_redrawDatelineContent :: "('dl, 'o) config \<Rightarrow> 'dom \<Rightarrow> 'dom"
  e_containerWidth :: "'dom \<Rightarrow> int option"
  e_scaleGraph :: "('dl, 'o) config \<Rightarrow> 'dom \<Rightarrow> 'dom"
  e_translateGraph :: "'c list \<Rightarrow> ('dl, 'o) config \<times> 'dom \<Rightarrow> ('dl, 'o) config \<times> 'dom"

definition logCall :: "'c call \<Rightarrow> ('c, 't, 'dl, 'o, 'dom) graph \<Rightarrow> ('c, 't, 'dl, 'o, 'dom) graph" where
  "logCall ev g = g \<lparr> this_calls := this_calls g @ [ev] \<rparr>"

text \<open>Writing back the configuration and the DOM a collaborator returns.\<close>

definition setSurface ::
    "('dl, 'o) config \<times> 'dom \<Rightarrow> ('c, 't, 'dl, 'o, 'dom) graph \<Rightarrow> ('c, 't, 'dl, 'o, 'dom) graph" where
  "setSurface s g = g \<lparr> this_config := fst s, this_dom := snd s \<rparr>"

text \<open>\<open>isRangeModified(config, yAxis = constants.Y_AXIS)\<close>\<close>

definition isRangeModified :: "('dl, 'o) config \<Rightarrow> string option \<Rightarrow> bool" where
  "isRangeModified config yAxisArg =
     a_dataRange_isRangeModified (c_axis config (axisParam yAxisArg))"

text \<open>\<open>setCanvasWidth\<close>: \<open>config.canvasWidth = parseInt(container.style("width"), 10)\<close>\<close>

definition setCanvasWidth ::
    "('c, 't, 'dl, 'o, 'dom) env \<Rightarrow> ('c, 't, 'dl, 'o, 'dom) graph \<Rightarrow> ('c, 't, 'dl, 'o, 'dom) graph" where
  "setCanvasWidth env g =
     logCall SetCanvasWidth
       (g \<lparr> this_config := (this_config g) \<lparr> c_canvasWidth := e_containerWidth env (this_dom g) \<rparr> \<rparr>)"

definition contentResize ::
    "('c, 't, 'dl, 'o, 'dom) env \<Rightarrow> ('c, 't, 'dl, 'o, 'dom) graph \<Rightarrow> 'c \<Rightarrow> ('c, 't, 'dl, 'o, 'dom) graph" where
  "contentResize env g control =
     logCall (ContentResize control)
       (setSurface (e_resize env control (this_content g) (this_config g, this_dom g)) g)"

text \<open>\<open>Graph.resize\<close>\<close>

definition resize ::
    "('c, 't, 'dl, 'o, 'dom) env \<Rightarrow> ('c, 't, 'dl, 'o, 'dom) graph \<Rightarrow> ('c, 't, 'dl, 'o, 'dom) graph" where
  "resize env g =
     (let g = setCanvasWidth env g;
          g = logCall ScaleGraph (g \<lparr> this_dom := e_scaleGraph env (this_config g) (this_dom g) \<rparr>);
          g = logCall TranslateGraph
                (setSurface (e_translateGraph env (this_content g) (this_config g, this_dom g)) g)
      in foldl (contentResize env) g (this_content g))"

text \<open>
  \<open>Graph.loadContent\<close>. The result is the error thrown, if any, and the graph as the call
  leaves it.
\<close>

definition loadContent ::
    "('c, 't, 'dl, 'o, 'dom) env \<Rightarrow> ('c, 't, 'dl, 'o, 'dom) graph \<Rightarrow> 'c \<Rightarrow>
     error option \<times> ('c, 't, 'dl, 'o, 'dom) graph" where
  "loadContent env g c =
     (case e_validateContent env (this_content g) c of
        Some e \<Rightarrow> (Some e, logCall (ValidateContent c) g)
      | None \<Rightarrow>
          (let g = logCall (ValidateContent c) g;
               g = g \<lparr> this_content := this_content g @ [c] \<rparr>;
               g = g \<lparr> this_contentTargets := this_contentTargets g @ [e_contentConfig env c (this_dom g)] \<rparr>;
               g = logCall (SetAxisPadding c) (g \<lparr> this_config := e_setAxisPadding env (this_config g) c \<rparr>);
               g = logCall (GetAxesDataRange c)
                     (g \<lparr> this_config := e_getAxesDataRange env c (e_yAxis env c (this_dom g)) (this_config g)
                                       (this_content g) \<rparr>);
               g = (if isRangeModified (this_config g) (e_yAxis env c (this_dom g))
                    then logCall (UpdateAxesDomain c)
                           (g \<lparr> this_config := e_updateAxesDomain env (this_config g) c \<rparr>)
                    else g);
               loaded = e_load env c (this_content g) (this_config g, this_dom g);
               g = logCall (ContentLoad c) (setSurface (snd loaded) g)
           in case fst loaded of
                Some e \<Rightarrow> (Some e, g)
              | None \<Rightarrow>
                  (let g = (if c_dateline (this_config g) \<noteq> [] \<and>
                               a_type (c_axis (this_config g) ''x'') = TIME_SERIES
                            then logCall RedrawDatelineContent
                                   (g \<lparr> this_dom := e_redrawDatelineContent env (this_config g) (this_dom g) \<rparr>)
                            else g)
                   in (None, resize env g))))"

text \<open>\<open>Array.prototype.indexOf\<close>: the first index of the element, \<open>-1\<close> when it is absent.\<close>

fun indexOf :: "'a list \<Rightarrow> 'a \<Rightarrow> int" where
  "indexOf [] x = - 1"
| "indexOf (y # ys) x =
     (if y = x then 0 else (let i = indexOf ys x in if i < 0 then - 1 else i + 1))"

text \<open>\<open>splice(index, 1)\<close>: the list without the element at the index.\<close>

definition splice1 :: "'a list \<Rightarrow> nat \<Rightarrow> 'a list" where
  "splice1 xs index = take index xs @ drop (Suc index) xs"

text \<open>\<open>Graph.unloadContent\<close>\<close>

definition unloadContent ::
    "('c, 't, 'dl, 'o, 'dom) env \<Rightarrow> ('c, 't, 'dl, 'o, 'dom) graph \<Rightarrow> 'c \<Rightarrow>
     error option \<times> ('c, 't, 'dl, 'o, 'dom) graph" where
  "unloadContent env g c =
     (let index = indexOf (this_content g) c
      in if index < 0 then (Some THROW_MSG_INVALID_OBJECT_PROVIDED, g)
         else (let g = g \<lparr> this_content := splice1 (this_content g) (nat index) \<rparr>;
                   g = g \<lparr> this_contentTargets := splice1 (this_contentTargets g) (nat index) \<rparr>;
                   g = logCall (ContentUnload c)
                         (setSurface (e_unload env c (this_content g) (this_config g, this_dom g)) g)
               in (None, resize env g)))"

text \<open>
  An environment and a graph to run the controller on. The DOM is a journal: each
  collaborator that draws appends its name to it, and the collaborators that work on the
  configuration append theirs to \<open>c_other\<close>, so that the final state shows what was applied
  and in which order. Every collaborator returns without an error, \<open>getAxesDataRange\<close>
  marks the range of \<open>y\<close> as modified, \<open>load\<close> registers a shown target, the container
  is 500 pixels wide. The graph has one dateline, a time-series X axis and one registered
  content.
\<close>

definition exampleEnv :: "(nat, nat, unit, string list, string list) env" where
  "exampleEnv =
     \<lparr> e_validateContent = (\<lambda>cs c. None),
       e_contentConfig = (\<lambda>c d. c),
       e_yAxis = (\<lambda>c d. Some ''y''),
       e_setAxisPadding = (\<lambda>cfg c. cfg \<lparr> c_other := c_other cfg @ [''setAxisPadding''] \<rparr>),
       e_getAxesDataRange = (\<lambda>c y cfg cs.
          cfg \<lparr> c_axis := (c_axis cfg)
                  (''y'' := (c_axis cfg ''y'') \<lparr> a_dataRange_isRangeModified := True \<rparr>),
                c_other := c_other cfg @ [''getAxesDataRange''] \<rparr>),
       e_updateAxesDomain = (\<lambda>cfg c. cfg \<lparr> c_other := c_other cfg @ [''updateAxesDomain''] \<rparr>),
       e_load = (\<lambda>c cs s.
          (None, (fst s) \<lparr> c_shownTargets := c_shownTargets (fst s) @ [''target''] \<rparr>,
           snd s @ [''load''])),
       e_unload = (\<lambda>c cs s. (fst s, snd s @ [''unload''])),
       e_resize = (\<lambda>c cs s. (fst s, snd s @ [''resize''])),
       e_redrawDatelineContent = (\<lambda>cfg d. d @ [''redrawDatelineContent'']),
       e_containerWidth = (\<lambda>d. Some 500),
       e_scaleGraph = (\<lambda>cfg d. d @ [''scaleGraph'']),
       e_translateGraph = (\<lambda>cs s. (fst s, snd s @ [''translateGraph''])) \<rparr>"

definition exampleGraph :: "(nat, nat, unit, string list, string list) graph" where
  "exampleGraph =
     \<lparr> this_config =
         \<lparr> c_axis = (\<lambda>a. \<lparr> a_type = TIME_SERIES, a_dataRange_isRangeModified = False \<rparr>),
           c_dateline = [()], c_shownTargets = [], c_canvasWidth = None, c_other = [] \<rparr>,
       this_content = [1], this_contentTargets = [1], this_dom = [], this_calls = [] \<rparr>"

section \<open>\<open>controls/Line/Line.js\<close>: the regions of a Graph of Lines\<close>

text \<open>
  The state of a loaded Line that its methods read where regions are concerned: the key
  and the regions of \<open>this.dataTarget\<close> (the regions are absent when the content declares
  none) and \<open>this.config.yAxis\<close>, which the constructor defaults to \<open>y\<close>. The loaded
  contents of a graph have different keys, so a Line is known by this state.
\<close>

record line =
  l_key :: string
  l_yAxis :: string
  l_regions :: "region list option"
















text \<open>
  The states of the regions that the specification speaks of: every region of the graph
  is hidden (\<open>aria-hidden=true\<close>); the regions of one content, those described by
  \<open>region_<key>\<close>, are visible (\<open>aria-hidden=false\<close>), or hidden; the regions of all other
  contents are hidden.
\<close>

definition allRegionsHidden :: "regionGroup \<Rightarrow> bool" where
  "allRegionsHidden svg =
     list_all (\<lambda>r. class_region r \<longrightarrow> aria_hidden r = Some True) (rg_rects svg)"

definition regionsVisibleFor :: "string \<Rightarrow> regionGroup \<Rightarrow> bool" where
  "regionsVisibleFor key svg =
     list_all (\<lambda>r. class_region r \<and> aria_describedby r = Some (''region_'' @ key)
                     \<longrightarrow> aria_hidden r = Some False)
              (rg_rects svg)"


definition otherRegionsHidden :: "string \<Rightarrow> regionGroup \<Rightarrow> bool" where
  "otherRegionsHidden key svg =
     list_all (\<lambda>r. class_region r \<and> aria_describedby r \<noteq> Some (''region_'' @ key)
                     \<longrightarrow> aria_hidden r = Some True)
              (rg_rects svg)"

text \<open>
  Every region element of the graph belongs to a loaded Line that declares regions: it is
  described by the key of that Line.
\<close>

definition regionsOwned :: "line list \<Rightarrow> regionGroup \<Rightarrow> bool" where
  "regionsOwned content svg =
     list_all (\<lambda>r. class_region r \<longrightarrow>
                 (\<exists>l \<in> set content. notEmptyList (l_regions l) \<and>
                    aria_describedby r = Some (''region_'' @ l_key l)))
              (rg_rects svg)"

text \<open>
  The invariant of the regions of a Graph of Lines: the regions are owned; unless exactly
  one target is shown every region is hidden; when exactly one is, its regions are visible
  and all others are hidden.
\<close>

definition regionsInvariant :: "line list \<Rightarrow> string list \<Rightarrow> regionGroup \<Rightarrow> bool" where
  "regionsInvariant content shownTargets svg \<longleftrightarrow>
     regionsOwned content svg \<and>
     (length shownTargets \<noteq> 1 \<longrightarrow> allRegionsHidden svg) \<and>
     (\<forall>key. shownTargets = [key] \<longrightarrow> regionsVisibleFor key svg \<and> otherRegionsHidden key svg)"







section \<open>The merged domain of the loaded contents\<close>

text \<open>
  A content as the domain engine sees it: the Y axis it is drawn against and the values
  range its constructor computed. The constructor of a Line sets
  \<open>config.yAxis = getDefaultValue(config.yAxis, constants.Y_AXIS)\<close> and
  \<open>valuesRange = calculateValuesRange(config.values, config.yAxis)\<close>; the constructor of a
  Bar does the same with its own \<open>calculateValuesRange\<close>.
\<close>

record seriesContent =
  sc_yAxis :: string
  sc_valuesRange :: valuesRange

definition Line :: "string option \<Rightarrow> 'x point list \<Rightarrow> seriesContent" where
  "Line yAxis values =
     \<lparr> sc_yAxis = axisParam yAxis,
       sc_valuesRange = Line_calculateValuesRange values (Some (axisParam yAxis)) \<rparr>"

definition Bar :: "string option \<Rightarrow> 'x bar_value list \<Rightarrow> seriesContent" where
  "Bar yAxis values =
     \<lparr> sc_yAxis = axisParam yAxis,
       sc_valuesRange = Bar_calculateValuesRange values (Some (axisParam yAxis)) \<rparr>"

text \<open>The elementwise minimum and maximum of two ranges.\<close>

definition mergeRanges :: "range \<Rightarrow> range \<Rightarrow> range" where
  "mergeRanges a b = \<lparr> rmin = ext_min (rmin a) (rmin b), rmax = ext_max (rmax a) (rmax b) \<rparr>"

text \<open>The ranges of the contents that have one for the axis, in the order of the list.\<close>

definition rangesOn :: "seriesContent list \<Rightarrow> string \<Rightarrow> range list" where
  "rangesOn contentList axisId = List.map_filter (\<lambda>c. sc_valuesRange c axisId) contentList"

text \<open>
  Modelled from the spec: \<open>getAxesDataRange\<close> (\<open>helpers/axis.js\<close>) and \<open>updateAxesDomain\<close>
  (\<open>Graph/helpers/helpers.js\<close>), which compute the domain, are not among the sources. In
  the words of the specification, \<open>computeDomain(contentList, axisId)\<close> merges the value
  ranges of every currently loaded content on the given axis, taking the elementwise
  minimum and maximum across all series, then applies the axis-specific adjustment
  (padding, the zero baseline, rounding); an empty content list is an error surfaced to
  the caller. The adjustment is the parameter \<open>adjust\<close>.
\<close>

definition computeDomain ::
    "(range \<Rightarrow> 'dm) \<Rightarrow> seriesContent list \<Rightarrow> string \<Rightarrow> error + 'dm" where
  "computeDomain adjust contentList axisId =
     (case rangesOn contentList axisId of
        [] \<Rightarrow> Inl THROW_MSG_NO_AXES_DATA_LOADED
      | r # rs \<Rightarrow> Inr (adjust (foldl mergeRanges r rs)))"

text \<open>The range of no values at all: \<open>Math.min()\<close> and \<open>Math.max()\<close> of no arguments.\<close>

definition emptyRange :: range where
  "emptyRange = \<lparr> rmin = PInf, rmax = NInf \<rparr>"

section \<open>Facts about the extended numbers\<close>

lemma ext_min_commute: "ext_min a b = ext_min b a"
  by (cases a; cases b) (auto simp: ext_min_def)

lemma ext_max_commute: "ext_max a b = ext_max b a"
  by (cases a; cases b) (auto simp: ext_max_def)

lemma ext_min_assoc: "ext_min (ext_min a b) c = ext_min a (ext_min b c)"
  by (cases a; cases b; cases c) (auto simp: ext_min_def)

lemma ext_max_assoc: "ext_max (ext_max a b) c = ext_max a (ext_max b c)"
  by (cases a; cases b; cases c) (auto simp: ext_max_def)

lemma ext_min_Fin: "ext_min (Fin a) (Fin b) = Fin (min a b)"
  by (auto simp: ext_min_def min_def)

lemma ext_max_Fin: "ext_max (Fin a) (Fin b) = Fin (max a b)"
  by (auto simp: ext_max_def max_def)

lemma Math_min_nonempty: "xs \<noteq> [] \<Longrightarrow> Math_min xs = Fin (Min (set xs))"
proof (induction xs)
  case Nil
  then show ?case by simp
next
  case (Cons x xs)
  show ?case
  proof (cases "xs = []")
    case True
    then show ?thesis by (simp add: ext_min_def)
  next
    case False
    with Cons.IH have "Math_min xs = Fin (Min (set xs))" by simp
    with False show ?thesis by (simp add: ext_min_Fin)
  qed
qed

lemma Math_max_nonempty: "xs \<noteq> [] \<Longrightarrow> Math_max xs = Fin (Max (set xs))"
proof (induction xs)
  case Nil
  then show ?case by simp
next
  case (Cons x xs)
  show ?case
  proof (cases "xs = []")
    case True
    then show ?thesis by (simp add: ext_max_def)
  next
    case False
    with Cons.IH have "Math_max xs = Fin (Max (set xs))" by simp
    with False show ?thesis by (simp add: ext_max_Fin)
  qed
qed

section \<open>The value ranges of Line and Bar\<close>

lemma yAxisValuesList_filter:
  "yAxisValuesList (filter (\<lambda>p. py p \<noteq> None) values) = yAxisValuesList values"
  by (simp add: yAxisValuesList_def)

lemma set_yAxisValuesList:
  "set (yAxisValuesList values) = {y. \<exists>p \<in> set values. py p = Some y}"
  by (force simp: yAxisValuesList_def image_iff)

lemma yAxisValuesList_nonempty:
  "(\<exists>p \<in> set values. py p \<noteq> None) \<Longrightarrow> yAxisValuesList values \<noteq> []"
  by (auto simp: yAxisValuesList_def filter_empty_conv)

text \<open>
  C10. For a list of Line values with at least one point whose \<open>y\<close> is not \<open>null\<close>,
  \<open>calculateValuesRange\<close> returns, under the axis key, the minimum and the maximum of the
  \<open>y\<close> of the points whose \<open>y\<close> is not \<open>null\<close>; the points with \<open>y === null\<close> have no
  influence: dropping them from the list gives the same range.
\<close>

theorem Line_calculateValuesRange_skips_null:
  assumes "\<exists>p \<in> set values. py p \<noteq> None"
  shows "Line_calculateValuesRange values axisArg =
           [axisParam axisArg \<mapsto>
              \<lparr> rmin = Fin (Min {y. \<exists>p \<in> set values. py p = Some y}),
                rmax = Fin (Max {y. \<exists>p \<in> set values. py p = Some y}) \<rparr>]
         \<and> Line_calculateValuesRange (filter (\<lambda>p. py p \<noteq> None) values) axisArg =
             Line_calculateValuesRange values axisArg"
proof -
  from assms have ne: "yAxisValuesList values \<noteq> []"
    by (rule yAxisValuesList_nonempty)
  have "Math_min (yAxisValuesList values) = Fin (Min {y. \<exists>p \<in> set values. py p = Some y})"
    using Math_min_nonempty [OF ne] by (simp add: set_yAxisValuesList)
  moreover have "Math_max (yAxisValuesList values) = Fin (Max {y. \<exists>p \<in> set values. py p = Some y})"
    using Math_max_nonempty [OF ne] by (simp add: set_yAxisValuesList)
  ultimately have "Line_calculateValuesRange values axisArg =
           [axisParam axisArg \<mapsto>
              \<lparr> rmin = Fin (Min {y. \<exists>p \<in> set values. py p = Some y}),
                rmax = Fin (Max {y. \<exists>p \<in> set values. py p = Some y}) \<rparr>]"
    by (simp add: Line_calculateValuesRange_def Let_def)
  moreover have "Line_calculateValuesRange (filter (\<lambda>p. py p \<noteq> None) values) axisArg =
             Line_calculateValuesRange values axisArg"
    by (simp only: Line_calculateValuesRange_def Let_def yAxisValuesList_filter)
  ultimately show ?thesis by (rule conjI)
qed

theorem Line_calculateValuesRange_skips_null_witness:
  "(\<exists>p \<in> set [\<lparr> px = (1::nat), py = Some 4 \<rparr>, \<lparr> px = 2, py = None \<rparr>,
                 \<lparr> px = 3, py = Some (- 2) \<rparr>]. py p \<noteq> None)
   \<and> Line_calculateValuesRange
        [\<lparr> px = (1::nat), py = Some 4 \<rparr>, \<lparr> px = 2, py = None \<rparr>, \<lparr> px = 3, py = Some (- 2) \<rparr>]
        None
      = [''y'' \<mapsto> \<lparr> rmin = Fin (- 2), rmax = Fin 4 \<rparr>]
   \<and> Line_calculateValuesRange
        [\<lparr> px = (1::nat), py = Some 4 \<rparr>, \<lparr> px = 3, py = Some (- 2) \<rparr>] None
      = [''y'' \<mapsto> \<lparr> rmin = Fin (- 2), rmax = Fin 4 \<rparr>]"
proof -
  have h: "\<exists>p \<in> set [\<lparr> px = (1::nat), py = Some 4 \<rparr>, \<lparr> px = 2, py = None \<rparr>,
                       \<lparr> px = 3, py = Some (- 2) \<rparr>]. py p \<noteq> None"
    by simp
  show ?thesis
    using h Line_calculateValuesRange_skips_null [OF h, of None]
    by (simp add: Line_calculateValuesRange_def yAxisValuesList_def axisParam_def Y_AXIS_def
        ext_min_def ext_max_def)
qed

lemma Math_min_zero:
  "ext_min (Math_min ys) (Fin 0) = (if ext_less (Math_min ys) (Fin 0) then Math_min ys else Fin 0)"
  by (cases "Math_min ys") (auto simp: ext_min_def)

lemma Math_max_zero:
  "ext_max (Math_max ys) (Fin 0) = (if ext_less (Fin 0) (Math_max ys) then Math_max ys else Fin 0)"
  by (cases "Math_max ys") (auto simp: ext_max_def)

lemma ext_min_zero_le: "ext_le (ext_min a (Fin 0)) (Fin 0)"
  by (cases a) (auto simp: ext_min_def ext_le_def)

lemma ext_max_zero_ge: "ext_le (Fin 0) (ext_max a (Fin 0))"
  by (cases a) (auto simp: ext_max_def ext_le_def)

text \<open>
  C6. For every list of Bar values the computed range contains zero: its minimum is the
  smaller of the minimum \<open>y\<close> and \<open>0\<close>, its maximum the larger of the maximum \<open>y\<close> and \<open>0\<close>
  (for the empty list both are \<open>0\<close>), so the minimum is at most \<open>0\<close> and the maximum at
  least \<open>0\<close>.
\<close>

theorem Bar_calculateValuesRange_includes_zero:
  "Bar_calculateValuesRange values axisArg =
     [axisParam axisArg \<mapsto>
        \<lparr> rmin = ext_min (Math_min (map bv_y values)) (Fin 0),
          rmax = ext_max (Math_max (map bv_y values)) (Fin 0) \<rparr>]
   \<and> ext_le (ext_min (Math_min (map bv_y values)) (Fin 0)) (Fin 0)
   \<and> ext_le (Fin 0) (ext_max (Math_max (map bv_y values)) (Fin 0))
   \<and> ext_min (Math_min (map bv_y values)) (Fin 0) =
       (if values = [] then Fin 0 else Fin (min (Min (bv_y ` set values)) 0))
   \<and> ext_max (Math_max (map bv_y values)) (Fin 0) =
       (if values = [] then Fin 0 else Fin (max (Max (bv_y ` set values)) 0))"
proof -
  have a: "Bar_calculateValuesRange values axisArg =
     [axisParam axisArg \<mapsto>
        \<lparr> rmin = ext_min (Math_min (map bv_y values)) (Fin 0),
          rmax = ext_max (Math_max (map bv_y values)) (Fin 0) \<rparr>]"
    by (simp only: Bar_calculateValuesRange_def Let_def Math_min_zero Math_max_zero)
  have b: "ext_min (Math_min (map bv_y values)) (Fin 0) =
       (if values = [] then Fin 0 else Fin (min (Min (bv_y ` set values)) 0))"
  proof (cases "values = []")
    case True
    then show ?thesis by (simp add: ext_min_def)
  next
    case False
    then have "Math_min (map bv_y values) = Fin (Min (bv_y ` set values))"
      using Math_min_nonempty [of "map bv_y values"] by simp
    with False show ?thesis by (simp add: ext_min_Fin)
  qed
  have c: "ext_max (Math_max (map bv_y values)) (Fin 0) =
       (if values = [] then Fin 0 else Fin (max (Max (bv_y ` set values)) 0))"
  proof (cases "values = []")
    case True
    then show ?thesis by (simp add: ext_max_def)
  next
    case False
    then have "Math_max (map bv_y values) = Fin (Max (bv_y ` set values))"
      using Math_max_nonempty [of "map bv_y values"] by simp
    with False show ?thesis by (simp add: ext_max_Fin)
  qed
  show ?thesis
    using a b c ext_min_zero_le ext_max_zero_ge by blast
qed

section \<open>Validation and creation of regions\<close>

lemma validateRegion_both_missing:
  "\<not> isEmptyRegion r \<Longrightarrow> isEmpty (region_start r) \<Longrightarrow> isEmpty (region_end r) \<Longrightarrow>
   validateRegion r t = Some THROW_MSG_REGION_START_END_MISSING"
  by (simp add: validateRegion_def)

lemma validateRegion_empty_object:
  "isEmptyRegion r \<Longrightarrow> validateRegion r t = Some THROW_MSG_REGION_EMPTY"
  by (simp add: validateRegion_def)

lemma isEmptyRegion_bounds:
  "isEmptyRegion r \<Longrightarrow> region_start r = Undefined \<and> region_end r = Undefined"
  by (simp add: isEmptyRegion_def region_start_def region_end_def)

lemma validRegionAxis_checks:
  assumes "validRegionAxis r t"
  shows "\<not> (\<not> isEmptyStr (region_axis r) \<and>
            ((region_axis r \<noteq> Some Y_AXIS \<and> region_axis r \<noteq> Some Y2_AXIS) \<or>
             region_axis r \<noteq> Some t))"
    and "\<not> (isEmptyStr (region_axis r) \<and> Y_AXIS \<noteq> t)"
proof -
  show "\<not> (\<not> isEmptyStr (region_axis r) \<and>
            ((region_axis r \<noteq> Some Y_AXIS \<and> region_axis r \<noteq> Some Y2_AXIS) \<or>
             region_axis r \<noteq> Some t))"
  proof (cases "isEmptyStr (region_axis r)")
    case True
    then show ?thesis by simp
  next
    case False
    with assms have "region_axis r = Some t" and "t = Y_AXIS \<or> t = Y2_AXIS"
      unfolding validRegionAxis_def by simp_all
    then show ?thesis by blast
  qed
  show "\<not> (isEmptyStr (region_axis r) \<and> Y_AXIS \<noteq> t)"
  proof (cases "isEmptyStr (region_axis r)")
    case True
    with assms have "t = Y_AXIS" unfolding validRegionAxis_def by simp
    then show ?thesis by simp
  next
    case False
    then show ?thesis by simp
  qed
qed

lemma validateRegion_valid_axis:
  assumes "validRegionAxis r t" and "\<not> isEmptyRegion r"
    and "\<not> (isEmpty (region_start r) \<and> isEmpty (region_end r))"
    and "\<not> ((truthy (region_start r) \<and> \<not> isNumber (region_start r)) \<or>
              (truthy (region_end r) \<and> \<not> isNumber (region_end r)))"
  shows "validateRegion r t =
           (if js_gt (Number (region_start r)) (Number (region_end r))
            then Some THROW_MSG_REGION_START_MORE_END else None)"
  unfolding validateRegion_def
  using validRegionAxis_checks [OF assms(1)] assms(2-4)
  by (simp only: if_False)

lemma validateRegion_start_only:
  assumes "validRegionAxis r t" and "region_start r = Num a" and "region_end r = Undefined"
  shows "validateRegion r t = None"
proof -
  have "\<not> isEmptyRegion r" using assms(2) isEmptyRegion_bounds [of r] by auto
  moreover have "\<not> (isEmpty (region_start r) \<and> isEmpty (region_end r))"
    using assms(2) by simp
  moreover have "\<not> ((truthy (region_start r) \<and> \<not> isNumber (region_start r)) \<or>
              (truthy (region_end r) \<and> \<not> isNumber (region_end r)))"
    using assms(2,3) by simp
  ultimately have "validateRegion r t =
           (if js_gt (Number (region_start r)) (Number (region_end r))
            then Some THROW_MSG_REGION_START_MORE_END else None)"
    using assms(1) by (rule validateRegion_valid_axis [rotated])
  then show ?thesis using assms(2,3) by simp
qed

lemma validateRegion_end_only:
  assumes "validRegionAxis r t" and "region_start r = Undefined" and "region_end r = Num b"
  shows "validateRegion r t = None"
proof -
  have "\<not> isEmptyRegion r" using assms(3) isEmptyRegion_bounds [of r] by auto
  moreover have "\<not> (isEmpty (region_start r) \<and> isEmpty (region_end r))"
    using assms(3) by simp
  moreover have "\<not> ((truthy (region_start r) \<and> \<not> isNumber (region_start r)) \<or>
              (truthy (region_end r) \<and> \<not> isNumber (region_end r)))"
    using assms(2,3) by simp
  ultimately have "validateRegion r t =
           (if js_gt (Number (region_start r)) (Number (region_end r))
            then Some THROW_MSG_REGION_START_MORE_END else None)"
    using assms(1) by (rule validateRegion_valid_axis [rotated])
  then show ?thesis using assms(2,3) by simp
qed


text \<open>
  C9, as amended. A region object other than the empty object \<open>{}\<close> whose \<open>start\<close> and
  \<open>end\<close> are both empty (\<open>undefined\<close> or \<open>null\<close>; a key that is absent and a key that
  holds \<open>undefined\<close> alike, so also \<open>{start: undefined, end: undefined}\<close>) makes
  \<open>validateRegion\<close> throw the start-end-missing error; the empty object \<open>{}\<close>, which has
  no own key, throws the region-empty error of the first check instead. A region that
  gives exactly one numeric bound and leaves the other one undefined, with an axis valid
  for the target axis, passes validation.
\<close>

theorem validateRegion_bounds:
  "(\<not> isEmptyRegion r \<and> isEmpty (region_start r) \<and> isEmpty (region_end r) \<longrightarrow>
      validateRegion r t = Some THROW_MSG_REGION_START_END_MISSING)
   \<and> (isEmptyRegion r \<longrightarrow> validateRegion r t = Some THROW_MSG_REGION_EMPTY)
   \<and> (validRegionAxis r t \<and>
        ((\<exists>a. region_start r = Num a \<and> region_end r = Undefined) \<or>
         (\<exists>b. region_start r = Undefined \<and> region_end r = Num b)) \<longrightarrow>
      validateRegion r t = None)"
proof (intro conjI impI)
  assume "\<not> isEmptyRegion r \<and> isEmpty (region_start r) \<and> isEmpty (region_end r)"
  then show "validateRegion r t = Some THROW_MSG_REGION_START_END_MISSING"
    by (simp add: validateRegion_both_missing)
next
  assume "isEmptyRegion r"
  then show "validateRegion r t = Some THROW_MSG_REGION_EMPTY"
    by (rule validateRegion_empty_object)
next
  assume h: "validRegionAxis r t \<and>
        ((\<exists>a. region_start r = Num a \<and> region_end r = Undefined) \<or>
         (\<exists>b. region_start r = Undefined \<and> region_end r = Num b))"
  then consider a where "region_start r = Num a" "region_end r = Undefined"
    | b where "region_start r = Undefined" "region_end r = Num b"
    by blast
  then show "validateRegion r t = None"
  proof cases
    case 1
    with h show ?thesis by (simp add: validateRegion_start_only)
  next
    case 2
    with h show ?thesis by (simp add: validateRegion_end_only)
  qed
qed

theorem validateRegion_bounds_witness:
  "validateRegion \<lparr> r_axis = Absent, r_start = Own Null, r_end = Absent, r_color = Absent \<rparr> ''y''
     = Some THROW_MSG_REGION_START_END_MISSING
   \<and> validateRegion
        \<lparr> r_axis = Absent, r_start = Own Undefined, r_end = Own Undefined, r_color = Absent \<rparr> ''y''
     = Some THROW_MSG_REGION_START_END_MISSING
   \<and> validateRegion
        \<lparr> r_axis = Absent, r_start = Absent, r_end = Absent, r_color = Own (Some ''#fff'') \<rparr> ''y''
     = Some THROW_MSG_REGION_START_END_MISSING
   \<and> validateRegion \<lparr> r_axis = Absent, r_start = Absent, r_end = Absent, r_color = Absent \<rparr> ''y''
     = Some THROW_MSG_REGION_EMPTY
   \<and> validateRegion
        \<lparr> r_axis = Own (Some ''y2''), r_start = Own (Num 5), r_end = Absent, r_color = Absent \<rparr>
        ''y2''
     = None
   \<and> validateRegion
        \<lparr> r_axis = Absent, r_start = Own Undefined, r_end = Own (Num (- 3)), r_color = Absent \<rparr>
        ''y''
     = None"
  using
    validateRegion_bounds [of "\<lparr> r_axis = Absent, r_start = Own Null, r_end = Absent,
                                  r_color = Absent \<rparr>" "''y''"]
    validateRegion_bounds [of "\<lparr> r_axis = Absent, r_start = Own Undefined, r_end = Own Undefined,
                                  r_color = Absent \<rparr>" "''y''"]
    validateRegion_bounds [of "\<lparr> r_axis = Absent, r_start = Absent, r_end = Absent,
                                  r_color = Own (Some ''#fff'') \<rparr>" "''y''"]
    validateRegion_bounds [of "\<lparr> r_axis = Absent, r_start = Absent, r_end = Absent,
                                  r_color = Absent \<rparr>" "''y''"]
    validateRegion_bounds [of "\<lparr> r_axis = Own (Some ''y2''), r_start = Own (Num 5), r_end = Absent,
                                  r_color = Absent \<rparr>" "''y2''"]
    validateRegion_bounds [of "\<lparr> r_axis = Absent, r_start = Own Undefined, r_end = Own (Num (- 3)),
                                  r_color = Absent \<rparr>" "''y''"]
  by (simp add: isEmptyRegion_def validRegionAxis_def isEmptyStr_def Y_AXIS_def Y2_AXIS_def
      region_axis_def region_start_def region_end_def)

text \<open>
  The claim as stated fails at the empty object: in \<open>{}\<close> both \<open>start\<close> and \<open>end\<close> are
  undefined, and the error thrown is the region-empty one of the earlier check, not the
  start-end-missing one.
\<close>

theorem validateRegion_bounds_counterexample:
  "isEmpty (region_start \<lparr> r_axis = Absent, r_start = Absent, r_end = Absent, r_color = Absent \<rparr>)
   \<and> isEmpty (region_end \<lparr> r_axis = Absent, r_start = Absent, r_end = Absent, r_color = Absent \<rparr>)
   \<and> validateRegion \<lparr> r_axis = Absent, r_start = Absent, r_end = Absent, r_color = Absent \<rparr> ''y''
       = Some THROW_MSG_REGION_EMPTY
   \<and> validateRegion \<lparr> r_axis = Absent, r_start = Absent, r_end = Absent, r_color = Absent \<rparr> ''y''
       \<noteq> Some THROW_MSG_REGION_START_END_MISSING"
  by (simp add: validateRegion_def isEmptyRegion_def region_start_def region_end_def)




lemma createRegion_returns:
  assumes "firstError (\<lambda>d. validateRegion d (axisParam t)) (drop (rg_gs rg) rs) = None"
  shows "createRegion rg rs key t =
           (None, rg \<lparr> rg_rects := rg_rects rg @ map (regionRect key) (drop (rg_gs rg) rs) \<rparr>)"
  using assms by (simp add: createRegion_def Let_def)




section \<open>Tick values of the X axis with datetime buckets\<close>

lemma constructDatetimeBucketValues_eq:
  "constructDatetimeBucketValues b = listOf (db_values b) @ listOf (db_upperStepTickValues b)"
  by (cases "db_values b"; cases "db_upperStepTickValues b")
     (simp_all add: constructDatetimeBucketValues_def notEmptyList_def listOf_def Let_def)

lemma createDatetimeBuckets_midpoint:
  "x_ticks config = Some t \<Longrightarrow> notEmptyList (midpointTickValues t) \<Longrightarrow>
   \<exists>grids. createDatetimeBuckets config = Inr grids \<and>
     (MIDPOINT_TICK_VALUES, the (midpointTickValues t)) \<in> set grids"
  by (simp add: createDatetimeBuckets_def)

text \<open>
  C7. When datetime buckets are configured (\<open>hasDatetimeBuckets\<close>), \<open>prepareHAxis\<close> prepares
  the X axis by calling the handler with a tick-value list that is exactly the lower-step
  tick values (the plain \<open>values\<close> list when no lower-step list is given) followed by the
  upper-step tick values. The list does not depend on \<open>midpointTickValues\<close>; those are
  drawn by the grid, in the midpoint tier of \<open>createDatetimeBuckets\<close>.
\<close>

theorem prepareHAxis_lower_upper_only:
  assumes "hasDatetimeBuckets (x_ticks config)" and "x_ticks config = Some t"
  shows "prepareHAxis scale axis config handler orientationArg =
           axis \<lparr> axis_x := handler scale
             ((case lowerStepTickValues t of Some l \<Rightarrow> l | None \<Rightarrow> listOf (t_values t))
               @ listOf (upperStepTickValues t))
             config
             (case orientationArg of None \<Rightarrow> x_orientation config | Some ori \<Rightarrow> ori) \<rparr>
         \<and> (notEmptyList (midpointTickValues t) \<longrightarrow>
              (\<exists>grids. createDatetimeBuckets config = Inr grids \<and>
                 (MIDPOINT_TICK_VALUES, the (midpointTickValues t)) \<in> set grids))"
proof -
  have a: "prepareHAxis scale axis config handler orientationArg =
           axis \<lparr> axis_x := handler scale
             ((case lowerStepTickValues t of Some l \<Rightarrow> l | None \<Rightarrow> listOf (t_values t))
               @ listOf (upperStepTickValues t))
             config
             (case orientationArg of None \<Rightarrow> x_orientation config | Some ori \<Rightarrow> ori) \<rparr>"
    using assms
    by (cases "lowerStepTickValues t")
       (simp_all add: prepareHAxis_def Let_def constructDatetimeBucketValues_eq listOf_def)
  with createDatetimeBuckets_midpoint [OF assms(2)] show ?thesis
    by blast
qed

theorem prepareHAxis_lower_upper_only_witness:
  "hasDatetimeBuckets
     (x_ticks \<lparr> x_ticks = Some \<lparr> t_values = Some [1::nat, 2], lowerStepTickValues = None,
                                 midpointTickValues = Some [5], upperStepTickValues = Some [9] \<rparr>,
               x_orientation = ''bottom'' \<rparr>)
   \<and> prepareHAxis () \<lparr> axis_x = [], axis_y = [] \<rparr>
       \<lparr> x_ticks = Some \<lparr> t_values = Some [1::nat, 2], lowerStepTickValues = None,
                         midpointTickValues = Some [5], upperStepTickValues = Some [9] \<rparr>,
         x_orientation = ''bottom'' \<rparr>
       (\<lambda>s vs c ori. vs) None
     = \<lparr> axis_x = [1, 2, 9], axis_y = [] \<rparr>
   \<and> prepareHAxis () \<lparr> axis_x = [], axis_y = [] \<rparr>
       \<lparr> x_ticks = Some \<lparr> t_values = Some [1::nat, 2], lowerStepTickValues = Some [3, 4],
                         midpointTickValues = Some [5], upperStepTickValues = Some [9] \<rparr>,
         x_orientation = ''bottom'' \<rparr>
       (\<lambda>s vs c ori. vs) None
     = \<lparr> axis_x = [3, 4, 9], axis_y = [] \<rparr>
   \<and> createDatetimeBuckets
         \<lparr> x_ticks = Some \<lparr> t_values = Some [1::nat, 2], lowerStepTickValues = None,
                           midpointTickValues = Some [5], upperStepTickValues = Some [9] \<rparr>,
           x_orientation = ''bottom'' \<rparr>
       = Inr [(LOWER_STEP_TICK_VALUES, [1, 2]), (MIDPOINT_TICK_VALUES, [5]),
              (UPPER_STEP_TICK_VALUES, [9])]"
proof -
  let ?t1 = "\<lparr> t_values = Some [1::nat, 2], lowerStepTickValues = None,
               midpointTickValues = Some [5], upperStepTickValues = Some [9] \<rparr>"
  let ?t2 = "\<lparr> t_values = Some [1::nat, 2], lowerStepTickValues = Some [3, 4],
               midpointTickValues = Some [5], upperStepTickValues = Some [9] \<rparr>"
  let ?c1 = "\<lparr> x_ticks = Some ?t1, x_orientation = ''bottom'' \<rparr>"
  let ?c2 = "\<lparr> x_ticks = Some ?t2, x_orientation = ''bottom'' \<rparr>"
  have h1: "hasDatetimeBuckets (x_ticks ?c1)"
    by (simp add: hasDatetimeBuckets_def isEmptyTicks_def notEmptyList_def)
  have h2: "hasDatetimeBuckets (x_ticks ?c2)"
    by (simp add: hasDatetimeBuckets_def isEmptyTicks_def notEmptyList_def)
  have e1: "x_ticks ?c1 = Some ?t1" and e2: "x_ticks ?c2 = Some ?t2"
    by simp_all
  show ?thesis
    using h1
      prepareHAxis_lower_upper_only [OF h1 e1, of "()" "\<lparr> axis_x = [], axis_y = [] \<rparr>"
        "\<lambda>s vs c ori. vs" None]
      prepareHAxis_lower_upper_only [OF h2 e2, of "()" "\<lparr> axis_x = [], axis_y = [] \<rparr>"
        "\<lambda>s vs c ori. vs" None]
    by (simp add: listOf_def notEmptyList_def createDatetimeBuckets_def)
qed

section \<open>Loading a Gantt track at an index\<close>

text \<open>
  C8. For every track content whose \<open>loadAtIndex\<close> is given and below zero,
  \<open>prepareLoadAtIndex\<close> throws, and the configuration (the track list) and the scale are
  as they were before the call. The error is the invalid-load-index one whenever the
  content passes \<open>validateContent\<close>, which runs first; a content that fails it throws that
  function's error, also with nothing mutated.
\<close>

theorem prepareLoadAtIndex_negative:
  assumes "tc_loadAtIndex c = Some i" and "i < 0"
  shows "(validateContent (Some c) = None \<longrightarrow>
            prepareLoadAtIndex validateContent defaultHeight scale config (Some c) len =
              (Inl THROW_MSG_INVALID_LOAD_CONTENT_AT_INDEX, config, scale))
         \<and> (\<exists>e. prepareLoadAtIndex validateContent defaultHeight scale config (Some c) len =
              (Inl e, config, scale))"
  using assms by (cases "validateContent (Some c)") (simp_all add: prepareLoadAtIndex_def)

theorem prepareLoadAtIndex_negative_witness:
  "prepareLoadAtIndex (\<lambda>c. None) (41 :: int)
        \<lparr> sx_domain = None, sx_range = (0, 0), sx_clamp = False, sx_nice = False,
          sy_domain = [], sy_range = [] \<rparr>
        \<lparr> g_trackList = [(''t1'', \<lparr> trackHeight = 41, trackLabel = ''One'' \<rparr>)],
          g_xDomain = (0::nat, 10::nat), g_rangeRounding = True, g_canvasWidth = 1000,
          g_axisSizes_y = 50, g_axisLabelWidths_y = 30, g_padding_top = 10, g_padding_bottom = 5 \<rparr>
        (Some \<lparr> tc_key = ''t2'', tc_trackLabel_display = ''Two'', tc_dimension = None,
                tc_loadAtIndex = Some (- 1) \<rparr>) 1
   = (Inl THROW_MSG_INVALID_LOAD_CONTENT_AT_INDEX,
        \<lparr> g_trackList = [(''t1'', \<lparr> trackHeight = 41, trackLabel = ''One'' \<rparr>)],
          g_xDomain = (0::nat, 10::nat), g_rangeRounding = True, g_canvasWidth = 1000,
          g_axisSizes_y = 50, g_axisLabelWidths_y = 30, g_padding_top = 10, g_padding_bottom = 5 \<rparr>,
        \<lparr> sx_domain = None, sx_range = (0, 0), sx_clamp = False, sx_nice = False,
          sy_domain = [], sy_range = [] \<rparr>)"
proof -
  let ?c = "\<lparr> tc_key = ''t2'', tc_trackLabel_display = ''Two'', tc_dimension = None,
                tc_loadAtIndex = Some (- 1) \<rparr> :: int trackContent"
  have 1: "tc_loadAtIndex ?c = Some (- 1)" and 2: "(- 1 :: int) < 0"
    by simp_all
  let ?s = "\<lparr> sx_domain = None, sx_range = (0, 0), sx_clamp = False, sx_nice = False,
          sy_domain = [], sy_range = [] \<rparr> :: (nat \<times> nat, int) scale"
  let ?g = "\<lparr> g_trackList = [(''t1'', \<lparr> trackHeight = 41, trackLabel = ''One'' \<rparr>)],
          g_xDomain = (0::nat, 10::nat), g_rangeRounding = True, g_canvasWidth = 1000,
          g_axisSizes_y = 50, g_axisLabelWidths_y = 30, g_padding_top = 10, g_padding_bottom = 5 \<rparr>
          :: (nat \<times> nat, int) ganttConfig"
  show ?thesis
    using prepareLoadAtIndex_negative [OF 1 2, where validateContent = "\<lambda>c. None"
        and defaultHeight = 41 and scale = ?s and config = ?g and len = 1]
    by simp
qed

section \<open>The Graph controller: unloading and loading a content\<close>

lemma indexOf_ge: "- 1 \<le> indexOf xs x"
  by (induction xs) (simp_all add: Let_def)

lemma indexOf_absent: "indexOf xs x < 0 \<longleftrightarrow> x \<notin> set xs"
proof (induction xs)
  case Nil
  show ?case by simp
next
  case (Cons y ys)
  have "- 1 \<le> indexOf ys x" by (rule indexOf_ge)
  with Cons show ?case by (auto simp: Let_def)
qed

text \<open>
  C1. For every graph and every content object that is not an element of the graph's
  content list, \<open>unloadContent\<close> throws the invalid-object error and the graph is exactly
  as before the call: the content list, the parallel \<open>contentTargets\<close> list, the
  configuration and the DOM are unchanged, and no collaborator has been called. The
  identity check comes before every mutation.
\<close>

theorem unloadContent_not_loaded:
  assumes "c \<notin> set (this_content g)"
  shows "unloadContent env g c = (Some THROW_MSG_INVALID_OBJECT_PROVIDED, g)"
proof -
  from assms have "indexOf (this_content g) c < 0"
    by (simp add: indexOf_absent)
  then show ?thesis
    by (simp add: unloadContent_def Let_def)
qed

theorem unloadContent_not_loaded_witness:
  "7 \<notin> set (this_content exampleGraph)
   \<and> unloadContent exampleEnv exampleGraph 7 = (Some THROW_MSG_INVALID_OBJECT_PROVIDED, exampleGraph)"
proof -
  have h: "7 \<notin> set (this_content exampleGraph)"
    by (simp add: exampleGraph_def)
  show ?thesis
    using h unloadContent_not_loaded [OF h, where env = exampleEnv] by simp
qed

lemma contentResize_content [simp]:
  "this_content (contentResize env g c) = this_content g"
  by (simp add: contentResize_def logCall_def setSurface_def)

lemma contentResize_eq:
  "contentResize env g c =
     g \<lparr> this_config := fst (e_resize env c (this_content g) (this_config g, this_dom g)),
         this_dom := snd (e_resize env c (this_content g) (this_config g, this_dom g)),
         this_calls := this_calls g @ [ContentResize c] \<rparr>"
  by (simp add: contentResize_def logCall_def setSurface_def)

lemma foldl_contentResize_state:
  "foldl (contentResize env) g cs =
     g \<lparr> this_config := fst (foldl (\<lambda>s control. e_resize env control (this_content g) s)
                                 (this_config g, this_dom g) cs),
         this_dom := snd (foldl (\<lambda>s control. e_resize env control (this_content g) s)
                                 (this_config g, this_dom g) cs),
         this_calls := this_calls g @ map ContentResize cs \<rparr>"
proof (induction cs arbitrary: g)
  case Nil
  show ?case by simp
next
  case (Cons c cs)
  define r where "r = e_resize env c (this_content g) (this_config g, this_dom g)"
  define g' where "g' = contentResize env g c"
  have g': "g' = g \<lparr> this_config := fst r, this_dom := snd r,
                      this_calls := this_calls g @ [ContentResize c] \<rparr>"
    unfolding g'_def r_def by (rule contentResize_eq)
  have s: "(this_config g', this_dom g') = r" and t: "this_content g' = this_content g"
    and l: "this_calls g' = this_calls g @ [ContentResize c]"
    unfolding g' by simp_all
  have "foldl (contentResize env) g (c # cs) = foldl (contentResize env) g' cs"
    by (simp add: g'_def)
  also have "\<dots> = g' \<lparr> this_config := fst (foldl (\<lambda>s control. e_resize env control (this_content g) s) r cs),
         this_dom := snd (foldl (\<lambda>s control. e_resize env control (this_content g) s) r cs),
         this_calls := (this_calls g @ [ContentResize c]) @ map ContentResize cs \<rparr>"
    unfolding Cons.IH [of g'] s t l ..
  also have "\<dots> = g \<lparr> this_config := fst (foldl (\<lambda>s control. e_resize env control (this_content g) s) r cs),
         this_dom := snd (foldl (\<lambda>s control. e_resize env control (this_content g) s) r cs),
         this_calls := (this_calls g @ [ContentResize c]) @ map ContentResize cs \<rparr>"
    unfolding g' by simp
  finally show ?case by (simp add: r_def)
qed

lemma resize_state:
  assumes sized: "sized = (this_config g) \<lparr> c_canvasWidth := e_containerWidth env (this_dom g) \<rparr>"
    and translated: "translated = e_translateGraph env (this_content g)
                        (sized, e_scaleGraph env sized (this_dom g))"
    and resized: "resized = foldl (\<lambda>s control. e_resize env control (this_content g) s)
                        translated (this_content g)"
  shows "resize env g =
     g \<lparr> this_config := fst resized, this_dom := snd resized,
         this_calls := this_calls g @ [SetCanvasWidth, ScaleGraph, TranslateGraph]
                         @ map ContentResize (this_content g) \<rparr>"
proof -
  define g1 where "g1 = setCanvasWidth env g"
  define g2 where "g2 = logCall ScaleGraph (g1 \<lparr> this_dom := e_scaleGraph env (this_config g1) (this_dom g1) \<rparr>)"
  define g3 where "g3 = logCall TranslateGraph
                (setSurface (e_translateGraph env (this_content g2) (this_config g2, this_dom g2)) g2)"
  have unfold: "resize env g = foldl (contentResize env) g3 (this_content g3)"
    unfolding resize_def g3_def g2_def g1_def by (simp only: Let_def)
  have e1: "g1 = g \<lparr> this_config := sized, this_calls := this_calls g @ [SetCanvasWidth] \<rparr>"
    unfolding g1_def setCanvasWidth_def logCall_def sized by simp
  have e2: "g2 = g \<lparr> this_config := sized, this_dom := e_scaleGraph env sized (this_dom g),
                      this_calls := this_calls g @ [SetCanvasWidth, ScaleGraph] \<rparr>"
    unfolding g2_def logCall_def e1 by simp
  have e3: "g3 = g \<lparr> this_config := fst translated, this_dom := snd translated,
                      this_calls := this_calls g @ [SetCanvasWidth, ScaleGraph, TranslateGraph] \<rparr>"
    unfolding g3_def logCall_def setSurface_def e2 translated by simp
  have f: "this_content g3 = this_content g" "(this_config g3, this_dom g3) = translated"
    "this_calls g3 = this_calls g @ [SetCanvasWidth, ScaleGraph, TranslateGraph]"
    unfolding e3 by simp_all
  show ?thesis
    unfolding unfold foldl_contentResize_state [of env g3] f resized
    unfolding e3 by simp
qed


lemma loadContent_state:
  assumes y: "y = e_yAxis env c (this_dom g)"
    and cfg: "cfg = e_getAxesDataRange env c y (e_setAxisPadding env (this_config g) c)
                 (this_content g @ [c])"
    and updated: "updated = (if isRangeModified cfg y then e_updateAxesDomain env cfg c else cfg)"
    and loaded: "loaded = e_load env c (this_content g @ [c]) (updated, this_dom g)"
    and redrawn: "redrawn =
          (if c_dateline (fst (snd loaded)) \<noteq> [] \<and>
              a_type (c_axis (fst (snd loaded)) ''x'') = TIME_SERIES
           then e_redrawDatelineContent env (fst (snd loaded)) (snd (snd loaded))
           else snd (snd loaded))"
    and sized: "sized = (fst (snd loaded)) \<lparr> c_canvasWidth := e_containerWidth env redrawn \<rparr>"
    and translated: "translated = e_translateGraph env (this_content g @ [c])
                        (sized, e_scaleGraph env sized redrawn)"
    and resized: "resized = foldl (\<lambda>s control. e_resize env control (this_content g @ [c]) s)
                        translated (this_content g @ [c])"
  shows "loadContent env g c =
     (case e_validateContent env (this_content g) c of
        Some e \<Rightarrow> (Some e, g \<lparr> this_calls := this_calls g @ [ValidateContent c] \<rparr>)
      | None \<Rightarrow>
          (case fst loaded of
             Some e \<Rightarrow>
               (Some e,
                g \<lparr> this_config := fst (snd loaded),
                    this_content := this_content g @ [c],
                    this_contentTargets := this_contentTargets g @ [e_contentConfig env c (this_dom g)],
                    this_dom := snd (snd loaded),
                    this_calls := this_calls g
                      @ [ValidateContent c, SetAxisPadding c, GetAxesDataRange c]
                      @ (if isRangeModified cfg y then [UpdateAxesDomain c] else [])
                      @ [ContentLoad c] \<rparr>)
           | None \<Rightarrow>
               (None,
                g \<lparr> this_config := fst resized,
                    this_content := this_content g @ [c],
                    this_contentTargets := this_contentTargets g @ [e_contentConfig env c (this_dom g)],
                    this_dom := snd resized,
                    this_calls := this_calls g
                      @ [ValidateContent c, SetAxisPadding c, GetAxesDataRange c]
                      @ (if isRangeModified cfg y then [UpdateAxesDomain c] else [])
                      @ [ContentLoad c]
                      @ (if c_dateline (fst (snd loaded)) \<noteq> [] \<and>
                            a_type (c_axis (fst (snd loaded)) ''x'') = TIME_SERIES
                         then [RedrawDatelineContent] else [])
                      @ [SetCanvasWidth, ScaleGraph, TranslateGraph]
                      @ map ContentResize (this_content g @ [c]) \<rparr>)))"
proof (cases "e_validateContent env (this_content g) c")
  case (Some e)
  then show ?thesis by (simp add: loadContent_def logCall_def)
next
  case None
  define g1 where "g1 = logCall (ValidateContent c) g"
  define g2 where "g2 = g1 \<lparr> this_content := this_content g1 @ [c] \<rparr>"
  define g3 where
    "g3 = g2 \<lparr> this_contentTargets := this_contentTargets g2 @ [e_contentConfig env c (this_dom g2)] \<rparr>"
  define g4 where
    "g4 = logCall (SetAxisPadding c) (g3 \<lparr> this_config := e_setAxisPadding env (this_config g3) c \<rparr>)"
  define g5 where
    "g5 = logCall (GetAxesDataRange c)
            (g4 \<lparr> this_config := e_getAxesDataRange env c (e_yAxis env c (this_dom g4))
                                   (this_config g4) (this_content g4) \<rparr>)"
  define g6 where
    "g6 = (if isRangeModified (this_config g5) (e_yAxis env c (this_dom g5))
           then logCall (UpdateAxesDomain c)
                  (g5 \<lparr> this_config := e_updateAxesDomain env (this_config g5) c \<rparr>)
           else g5)"
  define ld where "ld = e_load env c (this_content g6) (this_config g6, this_dom g6)"
  define g7 where "g7 = logCall (ContentLoad c) (setSurface (snd ld) g6)"
  define g8 where
    "g8 = (if c_dateline (this_config g7) \<noteq> [] \<and> a_type (c_axis (this_config g7) ''x'') = TIME_SERIES
           then logCall RedrawDatelineContent
                  (g7 \<lparr> this_dom := e_redrawDatelineContent env (this_config g7) (this_dom g7) \<rparr>)
           else g7)"
  define targets where
    "targets = this_contentTargets g @ [e_contentConfig env c (this_dom g)]"
  define D where "D \<longleftrightarrow> c_dateline (fst (snd loaded)) \<noteq> [] \<and>
                            a_type (c_axis (fst (snd loaded)) ''x'') = TIME_SERIES"
  have unfold: "loadContent env g c =
      (case fst ld of Some e \<Rightarrow> (Some e, g7) | None \<Rightarrow> (None, resize env g8))"
    unfolding loadContent_def g8_def g7_def ld_def g6_def g5_def g4_def g3_def g2_def g1_def
    using None by (simp only: option.case Let_def)
  have e1: "g1 = g \<lparr> this_calls := this_calls g @ [ValidateContent c] \<rparr>"
    unfolding g1_def logCall_def ..
  have e2: "g2 = g \<lparr> this_content := this_content g @ [c],
                      this_calls := this_calls g @ [ValidateContent c] \<rparr>"
    unfolding g2_def e1 by simp
  have e3: "g3 = g \<lparr> this_content := this_content g @ [c], this_contentTargets := targets,
                      this_calls := this_calls g @ [ValidateContent c] \<rparr>"
    unfolding g3_def e2 targets_def by simp
  have e4: "g4 = g \<lparr> this_config := e_setAxisPadding env (this_config g) c,
                      this_content := this_content g @ [c], this_contentTargets := targets,
                      this_calls := this_calls g @ [ValidateContent c, SetAxisPadding c] \<rparr>"
    unfolding g4_def logCall_def e3 by simp
  have e5: "g5 = g \<lparr> this_config := cfg,
                      this_content := this_content g @ [c], this_contentTargets := targets,
                      this_calls := this_calls g
                        @ [ValidateContent c, SetAxisPadding c, GetAxesDataRange c] \<rparr>"
    unfolding g5_def logCall_def e4 cfg y by simp
  have m: "isRangeModified (this_config g5) (e_yAxis env c (this_dom g5)) = isRangeModified cfg y"
    unfolding e5 y by simp
  have e6: "g6 = g \<lparr> this_config := updated,
                      this_content := this_content g @ [c], this_contentTargets := targets,
                      this_calls := this_calls g
                        @ [ValidateContent c, SetAxisPadding c, GetAxesDataRange c]
                        @ (if isRangeModified cfg y then [UpdateAxesDomain c] else []) \<rparr>"
  proof (cases "isRangeModified cfg y")
    case True
    then have "g6 = logCall (UpdateAxesDomain c)
                  (g5 \<lparr> this_config := e_updateAxesDomain env (this_config g5) c \<rparr>)"
      and "updated = e_updateAxesDomain env cfg c"
      unfolding g6_def m updated by simp_all
    then show ?thesis
      using True unfolding logCall_def e5 by simp
  next
    case False
    then have "g6 = g5" and "updated = cfg"
      unfolding g6_def m updated by simp_all
    then show ?thesis
      using False unfolding e5 by simp
  qed
  have ld: "ld = loaded"
    unfolding ld_def loaded e6 by simp
  have e7: "g7 = g \<lparr> this_config := fst (snd loaded),
                      this_content := this_content g @ [c], this_contentTargets := targets,
                      this_dom := snd (snd loaded),
                      this_calls := this_calls g
                        @ [ValidateContent c, SetAxisPadding c, GetAxesDataRange c]
                        @ (if isRangeModified cfg y then [UpdateAxesDomain c] else [])
                        @ [ContentLoad c] \<rparr>"
    unfolding g7_def logCall_def setSurface_def ld e6 by simp
  have d: "(c_dateline (this_config g7) \<noteq> [] \<and> a_type (c_axis (this_config g7) ''x'') = TIME_SERIES)
             = D"
    unfolding e7 D_def by simp
  have e8: "g8 = g \<lparr> this_config := fst (snd loaded),
                      this_content := this_content g @ [c], this_contentTargets := targets,
                      this_dom := redrawn,
                      this_calls := this_calls g
                        @ [ValidateContent c, SetAxisPadding c, GetAxesDataRange c]
                        @ (if isRangeModified cfg y then [UpdateAxesDomain c] else [])
                        @ [ContentLoad c]
                        @ (if D then [RedrawDatelineContent] else []) \<rparr>"
  proof (cases D)
    case True
    then have r: "redrawn = e_redrawDatelineContent env (fst (snd loaded)) (snd (snd loaded))"
      unfolding redrawn D_def by auto
    have "g8 = logCall RedrawDatelineContent
                  (g7 \<lparr> this_dom := e_redrawDatelineContent env (this_config g7) (this_dom g7) \<rparr>)"
      using True unfolding g8_def d by simp
    then show ?thesis
      using True unfolding logCall_def r e7 by simp
  next
    case False
    then have r: "redrawn = snd (snd loaded)"
      unfolding redrawn D_def by auto
    have "g8 = g7"
      using False unfolding g8_def d by simp
    then show ?thesis
      using False unfolding r e7 by simp
  qed
  have f8: "this_config g8 = fst (snd loaded)" "this_dom g8 = redrawn"
    "this_content g8 = this_content g @ [c]"
    unfolding e8 by simp_all
  have r8: "resize env g8 =
     g8 \<lparr> this_config := fst resized, this_dom := snd resized,
          this_calls := this_calls g8 @ [SetCanvasWidth, ScaleGraph, TranslateGraph]
                         @ map ContentResize (this_content g8) \<rparr>"
    by (rule resize_state) (simp_all only: f8 sized translated resized)
  show ?thesis
  proof (cases "fst loaded")
    case (Some e)
    then show ?thesis
      unfolding unfold ld using None by (simp add: e7 targets_def)
  next
    case None': None
    have "resize env g8 =
       g \<lparr> this_config := fst resized,
           this_content := this_content g @ [c], this_contentTargets := targets,
           this_dom := snd resized,
           this_calls := this_calls g
             @ [ValidateContent c, SetAxisPadding c, GetAxesDataRange c]
             @ (if isRangeModified cfg y then [UpdateAxesDomain c] else [])
             @ [ContentLoad c]
             @ (if D then [RedrawDatelineContent] else [])
             @ [SetCanvasWidth, ScaleGraph, TranslateGraph]
             @ map ContentResize (this_content g @ [c]) \<rparr>"
      unfolding r8 unfolding e8 by simp
    then show ?thesis
      unfolding unfold ld using None None' by (simp add: targets_def D_def)
  qed
qed


text \<open>
  C4. For every call of \<open>loadContent\<close> the graph is left as follows. The axis domains are
  updated only when registering the content modified the data range of its Y axis
  (\<open>isRangeModified\<close>, read after \<open>getAxesDataRange\<close>): the configuration handed to
  \<open>content.load\<close> is the one \<open>updateAxesDomain\<close> returns when the range was modified and
  the unchanged one otherwise. When \<open>validateContent\<close> throws, its error is thrown with
  nothing registered or changed. Otherwise the content and its \<open>config\<close> are registered
  at the end of the two lists and \<open>content.load\<close> is applied (after the update of the
  domains, when there is one); when it throws, its error is thrown and the graph is as
  \<open>load\<close> left it. When it returns, the dateline content is redrawn on the result (only
  when there are datelines and the X axis is a time series), and then comes the resize:
  the canvas width is set from the container, the graph is scaled, then translated, and
  \<open>resize\<close> is applied for every registered content in list order, the new one last,
  each on the state the previous step left. The log of the calls shows the same order.
\<close>

theorem loadContent_order:
  assumes y: "y = e_yAxis env c (this_dom g)"
    and cfg: "cfg = e_getAxesDataRange env c y (e_setAxisPadding env (this_config g) c)
                 (this_content g @ [c])"
    and updated: "updated = (if isRangeModified cfg y then e_updateAxesDomain env cfg c else cfg)"
    and loaded: "loaded = e_load env c (this_content g @ [c]) (updated, this_dom g)"
    and redrawn: "redrawn =
          (if c_dateline (fst (snd loaded)) \<noteq> [] \<and>
              a_type (c_axis (fst (snd loaded)) ''x'') = TIME_SERIES
           then e_redrawDatelineContent env (fst (snd loaded)) (snd (snd loaded))
           else snd (snd loaded))"
    and sized: "sized = (fst (snd loaded)) \<lparr> c_canvasWidth := e_containerWidth env redrawn \<rparr>"
    and translated: "translated = e_translateGraph env (this_content g @ [c])
                        (sized, e_scaleGraph env sized redrawn)"
    and resized: "resized = foldl (\<lambda>s control. e_resize env control (this_content g @ [c]) s)
                        translated (this_content g @ [c])"
  shows "(\<forall>e. e_validateContent env (this_content g) c = Some e \<longrightarrow>
            loadContent env g c =
              (Some e, g \<lparr> this_calls := this_calls g @ [ValidateContent c] \<rparr>))
       \<and> (\<forall>e. e_validateContent env (this_content g) c = None \<and> fst loaded = Some e \<longrightarrow>
            loadContent env g c =
              (Some e,
               g \<lparr> this_config := fst (snd loaded),
                   this_content := this_content g @ [c],
                   this_contentTargets :=
                     this_contentTargets g @ [e_contentConfig env c (this_dom g)],
                   this_dom := snd (snd loaded),
                   this_calls := this_calls g
                     @ [ValidateContent c, SetAxisPadding c, GetAxesDataRange c]
                     @ (if isRangeModified cfg y then [UpdateAxesDomain c] else [])
                     @ [ContentLoad c] \<rparr>))
       \<and> (e_validateContent env (this_content g) c = None \<and> fst loaded = None \<longrightarrow>
            loadContent env g c =
              (None,
               g \<lparr> this_config := fst resized,
                   this_content := this_content g @ [c],
                   this_contentTargets :=
                     this_contentTargets g @ [e_contentConfig env c (this_dom g)],
                   this_dom := snd resized,
                   this_calls := this_calls g
                     @ [ValidateContent c, SetAxisPadding c, GetAxesDataRange c]
                     @ (if isRangeModified cfg y then [UpdateAxesDomain c] else [])
                     @ [ContentLoad c]
                     @ (if c_dateline (fst (snd loaded)) \<noteq> [] \<and>
                           a_type (c_axis (fst (snd loaded)) ''x'') = TIME_SERIES
                        then [RedrawDatelineContent] else [])
                     @ [SetCanvasWidth, ScaleGraph, TranslateGraph]
                     @ map ContentResize (this_content g @ [c]) \<rparr>))
       \<and> (UpdateAxesDomain c
             \<in> set (drop (length (this_calls g)) (this_calls (snd (loadContent env g c))))
           \<longrightarrow> isRangeModified cfg y)"
proof -
  note st = loadContent_state [OF y cfg updated loaded redrawn sized translated resized]
  have a: "\<forall>e. e_validateContent env (this_content g) c = Some e \<longrightarrow>
            loadContent env g c =
              (Some e, g \<lparr> this_calls := this_calls g @ [ValidateContent c] \<rparr>)"
    unfolding st by simp
  have b: "\<forall>e. e_validateContent env (this_content g) c = None \<and> fst loaded = Some e \<longrightarrow>
            loadContent env g c =
              (Some e,
               g \<lparr> this_config := fst (snd loaded),
                   this_content := this_content g @ [c],
                   this_contentTargets :=
                     this_contentTargets g @ [e_contentConfig env c (this_dom g)],
                   this_dom := snd (snd loaded),
                   this_calls := this_calls g
                     @ [ValidateContent c, SetAxisPadding c, GetAxesDataRange c]
                     @ (if isRangeModified cfg y then [UpdateAxesDomain c] else [])
                     @ [ContentLoad c] \<rparr>)"
    unfolding st by simp
  have c: "e_validateContent env (this_content g) c = None \<and> fst loaded = None \<longrightarrow>
            loadContent env g c =
              (None,
               g \<lparr> this_config := fst resized,
                   this_content := this_content g @ [c],
                   this_contentTargets :=
                     this_contentTargets g @ [e_contentConfig env c (this_dom g)],
                   this_dom := snd resized,
                   this_calls := this_calls g
                     @ [ValidateContent c, SetAxisPadding c, GetAxesDataRange c]
                     @ (if isRangeModified cfg y then [UpdateAxesDomain c] else [])
                     @ [ContentLoad c]
                     @ (if c_dateline (fst (snd loaded)) \<noteq> [] \<and>
                           a_type (c_axis (fst (snd loaded)) ''x'') = TIME_SERIES
                        then [RedrawDatelineContent] else [])
                     @ [SetCanvasWidth, ScaleGraph, TranslateGraph]
                     @ map ContentResize (this_content g @ [c]) \<rparr>)"
    unfolding st by simp
  have d: "UpdateAxesDomain c
             \<in> set (drop (length (this_calls g)) (this_calls (snd (loadContent env g c))))
           \<longrightarrow> isRangeModified cfg y"
  proof (cases "isRangeModified cfg y")
    case True
    then show ?thesis by simp
  next
    case False
    then have "UpdateAxesDomain c
            \<notin> set (drop (length (this_calls g)) (this_calls (snd (loadContent env g c))))"
      unfolding st by (auto split: option.splits)
    then show ?thesis by simp
  qed
  from a b c d show ?thesis by (intro conjI)
qed

theorem loadContent_order_witness:
  "e_validateContent exampleEnv (this_content exampleGraph) 2 = None
   \<and> fst (loadContent exampleEnv exampleGraph 2) = None
   \<and> this_content (snd (loadContent exampleEnv exampleGraph 2)) = [1, 2]
   \<and> this_contentTargets (snd (loadContent exampleEnv exampleGraph 2)) = [1, 2]
   \<and> c_other (this_config (snd (loadContent exampleEnv exampleGraph 2))) =
       [''setAxisPadding'', ''getAxesDataRange'', ''updateAxesDomain'']
   \<and> c_shownTargets (this_config (snd (loadContent exampleEnv exampleGraph 2))) = [''target'']
   \<and> c_canvasWidth (this_config (snd (loadContent exampleEnv exampleGraph 2))) = Some 500
   \<and> this_dom (snd (loadContent exampleEnv exampleGraph 2)) =
       [''load'', ''redrawDatelineContent'', ''scaleGraph'', ''translateGraph'',
        ''resize'', ''resize'']
   \<and> this_calls (snd (loadContent exampleEnv exampleGraph 2)) =
       [ValidateContent 2, SetAxisPadding 2, GetAxesDataRange 2, UpdateAxesDomain 2,
        ContentLoad 2, RedrawDatelineContent, SetCanvasWidth, ScaleGraph, TranslateGraph,
        ContentResize 1, ContentResize 2]
   \<and> loadContent (exampleEnv \<lparr> e_validateContent := (\<lambda>cs c. Some (OtherError ''invalid'')) \<rparr>)
         exampleGraph 2
       = (Some (OtherError ''invalid''), exampleGraph \<lparr> this_calls := [ValidateContent 2] \<rparr>)
   \<and> fst (loadContent (exampleEnv \<lparr> e_load := (\<lambda>c cs s. (Some TypeError, fst s, snd s @ [''load''])) \<rparr>)
              exampleGraph 2)
       = Some TypeError
   \<and> this_dom (snd (loadContent
         (exampleEnv \<lparr> e_load := (\<lambda>c cs s. (Some TypeError, fst s, snd s @ [''load''])) \<rparr>)
         exampleGraph 2))
       = [''load'']"
  using
    loadContent_order [OF refl refl refl refl refl refl refl refl,
      where env = exampleEnv and c = 2 and g = exampleGraph]
    loadContent_order [OF refl refl refl refl refl refl refl refl,
      where env = "exampleEnv \<lparr> e_validateContent := (\<lambda>cs c. Some (OtherError ''invalid'')) \<rparr>"
        and c = 2 and g = exampleGraph]
    loadContent_order [OF refl refl refl refl refl refl refl refl,
      where env = "exampleEnv \<lparr> e_load := (\<lambda>c cs s. (Some TypeError, fst s, snd s @ [''load''])) \<rparr>"
        and c = 2 and g = exampleGraph]
  by (simp add: exampleEnv_def exampleGraph_def isRangeModified_def axisParam_def Y_AXIS_def)

section \<open>Visibility of the regions\<close>










lemma regionsOwned_iff:
  "regionsOwned content svg \<longleftrightarrow>
     (\<forall>r \<in> set (rg_rects svg). class_region r \<longrightarrow>
        (\<exists>l \<in> set content. notEmptyList (l_regions l) \<and>
           aria_describedby r = Some (''region_'' @ l_key l)))"
  by (simp add: regionsOwned_def list_all_iff)







lemma regionsOwned_mono:
  "regionsOwned content svg \<Longrightarrow> set content \<subseteq> set content' \<Longrightarrow> regionsOwned content' svg"
  unfolding regionsOwned_iff by blast


lemma regionsInvariant_content:
  assumes "regionsInvariant content shownTargets svg" and "set content \<subseteq> set content'"
  shows "regionsInvariant content' shownTargets svg"
  using assms unfolding regionsInvariant_def by (blast intro: regionsOwned_mono)













section \<open>The regions in a Graph of Lines\<close>




































section \<open>Order independence of the merged domain\<close>

lemma ext_min_right_commute: "ext_min (ext_min x a) b = ext_min (ext_min x b) a"
  by (cases x; cases a; cases b) (auto simp: ext_min_def)

lemma ext_max_right_commute: "ext_max (ext_max x a) b = ext_max (ext_max x b) a"
  by (cases x; cases a; cases b) (auto simp: ext_max_def)

lemma mergeRanges_commute: "mergeRanges a b = mergeRanges b a"
  by (simp add: mergeRanges_def ext_min_commute [of "rmin a"] ext_max_commute [of "rmax a"])

lemma mergeRanges_right_commute:
  "mergeRanges (mergeRanges x a) b = mergeRanges (mergeRanges x b) a"
  by (simp add: mergeRanges_def ext_min_right_commute [of "rmin x" "rmin a"]
      ext_max_right_commute [of "rmax x" "rmax a"])

lemma mergeRanges_empty: "mergeRanges emptyRange r = r"
  by (cases "rmin r"; cases "rmax r") (simp_all add: mergeRanges_def emptyRange_def ext_min_def ext_max_def)

lemma foldl_swap:
  assumes "length as \<le> 1" and "length bs \<le> 1"
  shows "foldl mergeRanges (foldl mergeRanges x as) bs = foldl mergeRanges (foldl mergeRanges x bs) as"
proof (cases as)
  case Nil
  then show ?thesis by simp
next
  case (Cons a as')
  with assms(1) have as: "as = [a]" by simp
  show ?thesis
  proof (cases bs)
    case Nil
    then show ?thesis by simp
  next
    case (Cons b bs')
    with assms(2) have "bs = [b]" by simp
    with as show ?thesis by (simp add: mergeRanges_right_commute)
  qed
qed

lemma length_rangesOn_single: "length (rangesOn [c] axisId) \<le> 1"
  by (simp add: rangesOn_def List.map_filter_def)

lemma rangesOn_append: "rangesOn (xs @ ys) axisId = rangesOn xs axisId @ rangesOn ys axisId"
  by (simp add: rangesOn_def List.map_filter_def)

lemma computeDomain_fold:
  "computeDomain adjust contentList axisId =
     (if rangesOn contentList axisId = [] then Inl THROW_MSG_NO_AXES_DATA_LOADED
      else Inr (adjust (foldl mergeRanges emptyRange (rangesOn contentList axisId))))"
  by (cases "rangesOn contentList axisId") (simp_all add: computeDomain_def mergeRanges_empty)

lemma rangesOn_swap:
  "rangesOn (loaded @ [a, b] @ later) axisId =
     rangesOn loaded axisId @ rangesOn [a] axisId @ rangesOn [b] axisId @ rangesOn later axisId"
proof -
  have "loaded @ [a, b] @ later = loaded @ [a] @ [b] @ later" by simp
  then show ?thesis by (simp only: rangesOn_append)
qed

lemma computeDomain_swap:
  "computeDomain adjust (loaded @ [a, b] @ later) axisId =
   computeDomain adjust (loaded @ [b, a] @ later) axisId"
proof -
  have e: "rangesOn (loaded @ [a, b] @ later) axisId = [] \<longleftrightarrow>
           rangesOn (loaded @ [b, a] @ later) axisId = []"
    unfolding rangesOn_swap by auto
  have f: "foldl mergeRanges emptyRange (rangesOn (loaded @ [a, b] @ later) axisId) =
           foldl mergeRanges emptyRange (rangesOn (loaded @ [b, a] @ later) axisId)"
    unfolding rangesOn_swap foldl_append
    by (simp only: foldl_swap [OF length_rangesOn_single length_rangesOn_single])
  show ?thesis
    unfolding computeDomain_fold using e f by simp
qed

text \<open>
  C5. The merged domain of the loaded contents does not depend on the order of loading:
  for every two contents \<open>a\<close> and \<open>b\<close>, the domain of an axis computed from a content list
  in which \<open>a\<close> was loaded just before \<open>b\<close> is the domain computed from the list in which
  \<open>b\<close> was loaded just before \<open>a\<close>, whatever was loaded before and after them (both are
  an error when no content is on the axis). In particular two Line series loaded onto an
  empty graph give the same domain in either order.
\<close>

theorem computeDomain_order_independent:
  "computeDomain adjust (loaded @ [a, b] @ later) axisId =
     computeDomain adjust (loaded @ [b, a] @ later) axisId
   \<and> computeDomain adjust [Line yAxisA valuesA, Line yAxisB valuesB] axisId =
       computeDomain adjust [Line yAxisB valuesB, Line yAxisA valuesA] axisId"
proof
  show "computeDomain adjust (loaded @ [a, b] @ later) axisId =
     computeDomain adjust (loaded @ [b, a] @ later) axisId"
    by (rule computeDomain_swap)
  show "computeDomain adjust [Line yAxisA valuesA, Line yAxisB valuesB] axisId =
       computeDomain adjust [Line yAxisB valuesB, Line yAxisA valuesA] axisId"
    using computeDomain_swap [of adjust "[]" "Line yAxisA valuesA" "Line yAxisB valuesB" "[]" axisId]
    by simp
qed

end
